theory Spec2Isabelle
  imports Complex_Main "HOL-Library.AList"
begin

section \<open>Connection data service: values, errors and collaborators\<close>

text \<open>
  The embedding follows \<^verbatim>\<open>backend/services/mgmt/v1alpha1/connection-data-service/connection-data.go\<close>.
  Go byte slices and strings are \<open>char list\<close>s (a \<open>char\<close> is a byte); a byte slice that
  may be \<^verbatim>\<open>nil\<close> is a \<open>bytes option\<close>, a pointer that may be \<^verbatim>\<open>nil\<close> is an \<open>option\<close>.
  The request context, the logger and the S3 client handle are passed through by the
  source without being inspected and are left out.
\<close>

type_synonym bytes = string

text \<open>
  Errors. The first four constructors are the classes built by the constructors
  \<^verbatim>\<open>NewBadRequest\<close>, \<^verbatim>\<open>NewNotFound\<close>, \<^verbatim>\<open>NewInternalError\<close> and \<^verbatim>\<open>NewNotImplemented\<close> of the
  package \<^verbatim>\<open>nucleuserrors\<close>; \<open>PlainError\<close> is an error made by \<^verbatim>\<open>errors.New\<close> or
  \<^verbatim>\<open>fmt.Errorf\<close> or a library error; \<open>Panic\<close> is a run-time panic (an index out of range,
  a nil pointer dereference), which is not an error return of the Go function.
\<close>

datatype error =
    BadRequest string
  | NotFound string
  | InternalError string
  | NotImplemented string
  | PlainError string
  | Panic string

fun is_NotFound :: "error \<Rightarrow> bool" where
  "is_NotFound (NotFound m) = True"
| "is_NotFound e = False"

fun is_NotImplemented :: "error \<Rightarrow> bool" where
  "is_NotImplemented (NotImplemented m) = True"
| "is_NotImplemented e = False"

fun is_BadRequest :: "error \<Rightarrow> bool" where
  "is_BadRequest (BadRequest m) = True"
| "is_BadRequest e = False"

fun is_Panic :: "error \<Rightarrow> bool" where
  "is_Panic (Panic m) = True"
| "is_Panic e = False"

text \<open>Dereferencing a pointer: \<^verbatim>\<open>*p\<close> panics when \<^verbatim>\<open>p\<close> is nil.\<close>

definition deref :: "'a option \<Rightarrow> error + 'a" where
  "deref p = (case p of None \<Rightarrow> Inl (Panic ''invalid memory address or nil pointer dereference'')
                      | Some v \<Rightarrow> Inr v)"

subsection \<open>Connections\<close>

text \<open>
  The protobuf messages are declared outside this file; they are modelled by the fields
  and variants this file reads. \<open>ConnectionConfig_OtherConfig\<close> stands for any variant of
  the \<^verbatim>\<open>Config\<close> oneof that no type switch of this file names (or for an unset oneof).
\<close>

record AwsS3ConnectionConfig =
  Bucket :: string
  Region :: "string option"

datatype ConnectionConfig_Config =
    ConnectionConfig_PgConfig string
  | ConnectionConfig_MysqlConfig string
  | ConnectionConfig_AwsS3Config AwsS3ConnectionConfig
  | ConnectionConfig_OpenaiConfig string
  | ConnectionConfig_OtherConfig

record Connection =
  Id :: string
  AccountId :: string
  ConnectionConfig :: ConnectionConfig_Config

record DatabaseColumn =
  Schema :: string
  Table :: string
  Column :: string
  DataType :: string
  IsNullable :: string
  ColumnDefault :: "string option"
  GeneratedType :: "string option"

subsection \<open>S3 listings and objects\<close>

record S3Object =
  Key :: "string option"

record CommonPrefix =
  Prefix :: "string option"

record ListObjectsV2Input =
  Bucket :: string
  Prefix :: string
  Delimiter :: "string option"
  ContinuationToken :: "string option"
  MaxKeys :: "int option"

record ListObjectsV2Output =
  Contents :: "S3Object list"
  CommonPrefixes :: "CommonPrefix list"
  KeyCount :: "int option"
  IsTruncated :: "bool option"
  NextContinuationToken :: "string option"

record GetObjectInput =
  Bucket :: string
  Key :: string

text \<open>
  An object's body is read through \<^verbatim>\<open>gzip.NewReader\<close> and a \<^verbatim>\<open>bufio.Scanner\<close>. The body
  is characterised by what these make of it: \<^verbatim>\<open>gzip.NewReader\<close> fails (\<open>Inl\<close>), or the
  scanner delivers the lines \<open>Lines\<close> and then stops, at the end of the data
  (\<open>ScanErr = None\<close>) or on a decompression or scanning error; \<open>FirstScanErr\<close> is what
  \<^verbatim>\<open>scanner.Err()\<close> returns after the first call of \<^verbatim>\<open>Scan\<close> alone.
\<close>

record ScannedBody =
  Lines :: "bytes list"
  ScanErr :: "error option"
  FirstScanErr :: "error option"

record GetObjectOutput =
  Body :: "error + ScannedBody"

record JobRecentRun =
  JobRunId :: string

subsection \<open>The service's collaborators\<close>

record ConnectionService =
  GetConnection :: "string \<Rightarrow> error + Connection"

record JobService =
  GetJobRecentRuns :: "string \<Rightarrow> error + JobRecentRun list"

record AwsManager =
  NewS3Client :: "AwsS3ConnectionConfig \<Rightarrow> error option"
  ListObjectsV2 :: "string option \<Rightarrow> ListObjectsV2Input \<Rightarrow> error + ListObjectsV2Output option"
  GetObject :: "string option \<Rightarrow> GetObjectInput \<Rightarrow> error + GetObjectOutput"

record SqlRows =
  Columns :: "error + string list"
  RowCells :: "bytes option list list"

record SqlDb =
  QueryContext :: "string \<Rightarrow> SqlRows option \<times> error option"

record SqlDbContainer =
  Open :: "error + SqlDb"

record FieldDescription =
  Name :: string
  DataTypeOID :: nat

record PgRows =
  FieldDescriptions :: "FieldDescription list"
  RowCells :: "bytes option list list"

record PgDb =
  Query :: "string \<Rightarrow> PgRows \<times> error option"

record PgPoolContainer =
  Open :: "error + PgDb"

record SqlConnector =
  NewDbFromConnectionConfig :: "ConnectionConfig_Config \<Rightarrow> error + SqlDbContainer"
  NewPgPoolFromConnectionConfig :: "string \<Rightarrow> error + PgPoolContainer"

record DatabaseSchemaRow =
  TableSchema :: string
  TableName :: string
  ColumnName :: string
  DataType :: string
  ColumnDefault :: string
  IsNullable :: string
  GeneratedType :: "string option"

record ForeignKey =
  Table :: string
  Columns :: "string list"

record ForeignConstraint =
  Columns :: "string list"
  NotNullable :: "bool list"
  ForeignKey :: ForeignKey

record TableConstraints =
  ForeignKeyConstraints :: "(string \<times> ForeignConstraint list) list"
  PrimaryKeyConstraints :: "(string \<times> string list) list"
  UniqueConstraints :: "(string \<times> string list list) list"

text \<open>
  The database handle of \<^verbatim>\<open>sqlmanager.NewSqlDb\<close>. A Go map returned by a collaborator is an
  association list with distinct keys, in the order the \<^verbatim>\<open>range\<close> loop visits it.
\<close>

record SqlDatabase =
  GetDatabaseSchema :: "error + DatabaseSchemaRow list"
  GetForeignKeyConstraintsMap :: "string list \<Rightarrow> error + (string \<times> ForeignConstraint list) list"
  GetPrimaryKeyConstraintsMap :: "string list \<Rightarrow> error + (string \<times> string list) list"
  GetUniqueConstraintsMap :: "string list \<Rightarrow> error + (string \<times> string list list) list"
  GetTableConstraintsBySchema :: "string list \<Rightarrow> error + TableConstraints"
  GetCreateTableStatement :: "string \<Rightarrow> string \<Rightarrow> error + string"
  GetTableRowCount :: "string \<Rightarrow> string \<Rightarrow> string option \<Rightarrow> error + int"

record SqlManager =
  NewSqlDb :: "Connection \<Rightarrow> error + SqlDatabase"

record PgTableSchemaRow =
  SchemaName :: string
  TableName :: string
  ColumnName :: string
  DataType :: string
  IsNullable :: string

record MysqlSchemaRow =
  TableSchema :: string
  TableName :: string
  ColumnName :: string
  DataType :: string
  IsNullable :: string

record PgQuerier =
  GetDatabaseTableSchema :: "PgDb \<Rightarrow> string \<Rightarrow> string \<Rightarrow> error + PgTableSchemaRow list"

record MysqlQuerier =
  GetDatabaseSchema :: "SqlDb \<Rightarrow> error + MysqlSchemaRow list"

text \<open>The \<^verbatim>\<open>Service\<close> struct; \<open>verifyUserInAccount\<close> is a method of it defined in another file.\<close>

record Service =
  connectionService :: ConnectionService
  jobService :: JobService
  awsManager :: AwsManager
  sqlConnector :: SqlConnector
  sqlmanager :: SqlManager
  pgquerier :: PgQuerier
  mysqlquerier :: MysqlQuerier
  verifyUserInAccount :: "string \<Rightarrow> error option"

subsection \<open>Values of packages outside this file\<close>

text \<open>
  A JSON value as \<^verbatim>\<open>json.Unmarshal\<close> stores it in an \<^verbatim>\<open>any\<close>: nil, a bool, a float64
  (the real number it denotes), a string, a slice or a map.
\<close>

datatype json =
    JNull
  | JBool bool
  | JNumber real
  | JString string
  | JArray "json list"
  | JObject "(string \<times> json) list"

text \<open>
  A \<^verbatim>\<open>time.Time\<close>: the civil date and clock it shows in its own zone, and the zone's offset
  in seconds east of UTC.
\<close>

record Time =
  year :: int
  month :: nat
  day :: nat
  hour :: nat
  minute :: nat
  second :: nat
  nanosecond :: nat
  zoneOffset :: int

text \<open>
  The \<^verbatim>\<open>any\<close> that the database driver hands to a \<^verbatim>\<open>sql.Scanner\<close>: nil for SQL NULL, a
  \<^verbatim>\<open>time.Time\<close>, or a value of another type, given by the name \<^verbatim>\<open>%T\<close> prints.
\<close>

datatype ScanInput =
    ScanNil
  | ScanTime Time
  | ScanOther string

text \<open>
  Functions this file calls and that are defined elsewhere: \<^verbatim>\<open>sql_manager.BuildTable\<close>,
  \<^verbatim>\<open>sql_manager.BuildMysqlTruncateStatement\<close>, \<^verbatim>\<open>sql_manager.BuildPgTruncateCascadeStatement\<close>
  and \<^verbatim>\<open>nucleusdb.IsNoRows\<close> of this repository; \<^verbatim>\<open>json.Unmarshal\<close> into a
  \<^verbatim>\<open>map[string]any\<close> (the decoded object as an association list with distinct keys, in the
  order the \<^verbatim>\<open>range\<close> loop visits it) and \<^verbatim>\<open>json.Marshal\<close> of the standard library; and the
  value the Postgres driver decodes from the wire bytes of a date column before it calls
  \<^verbatim>\<open>Scan\<close>.
\<close>

record Imports =
  BuildTable :: "string \<Rightarrow> string \<Rightarrow> string"
  BuildMysqlTruncateStatement :: "string \<Rightarrow> string \<Rightarrow> error + string"
  BuildPgTruncateCascadeStatement :: "string \<Rightarrow> string \<Rightarrow> error + string"
  IsNoRows :: "error \<Rightarrow> bool"
  json_Unmarshal :: "bytes \<Rightarrow> error + (string \<times> json) list"
  json_Marshal :: "json \<Rightarrow> error + bytes"
  decodeDate :: "bytes \<Rightarrow> error + ScanInput"

text \<open>A row of the response: column name to payload; the payload \<open>None\<close> is a nil slice.\<close>

type_synonym Row = "string \<rightharpoonup> bytes option"

section \<open>Run resolution\<close>

text \<open>
  \<^verbatim>\<open>getLastestJobRunFromAwsS3\<close>: the loop \<^verbatim>\<open>for i := len(jobRuns) - 1; i >= 0; i--\<close> visits
  the history from its last element to its first; \<open>scanJobRuns\<close> takes the history
  reversed, so that its head is \<^verbatim>\<open>jobRuns[len(jobRuns)-1]\<close>.
\<close>

fun scanJobRuns :: "Service \<Rightarrow> string \<Rightarrow> string \<Rightarrow> string option \<Rightarrow> JobRecentRun list \<Rightarrow> error + string" where
  "scanJobRuns s jobId bucket region [] =
     Inl (InternalError (''unable to find latest job run for job: '' @ jobId))"
| "scanJobRuns s jobId bucket region (run # older) =
     (let runId = JobRecentRun.JobRunId run;
          path = ''workflows/'' @ runId @ ''/activities/''
      in case ListObjectsV2 (awsManager s) region
                \<lparr>ListObjectsV2Input.Bucket = bucket, Prefix = path, Delimiter = Some ''/'',
                 ContinuationToken = None, MaxKeys = None\<rparr> of
           Inl err \<Rightarrow> Inl err
         | Inr None \<Rightarrow> scanJobRuns s jobId bucket region older
         | Inr (Some output) \<Rightarrow>
             (case deref (KeyCount output) of
                Inl p \<Rightarrow> Inl p
              | Inr n \<Rightarrow> if n > 0 then Inr runId
                         else scanJobRuns s jobId bucket region older))"

definition getLastestJobRunFromAwsS3 :: "Service \<Rightarrow> string \<Rightarrow> string \<Rightarrow> string option \<Rightarrow> error + string" where
  "getLastestJobRunFromAwsS3 s jobId bucket region =
     (case GetJobRecentRuns (jobService s) jobId of
        Inl err \<Rightarrow> Inl err
      | Inr jobRuns \<Rightarrow> scanJobRuns s jobId bucket region (rev jobRuns))"

text \<open>
  How the loop classifies a run: the listing of \<^verbatim>\<open>workflows/<runId>/activities/\<close> returned
  an output whose key count is positive (the run has data), or it returned no output or
  a key count that is not positive (the run is empty). A listing that fails, or an output
  without a key count, is neither.
\<close>

definition listRunActivities :: "Service \<Rightarrow> string \<Rightarrow> string option \<Rightarrow> JobRecentRun \<Rightarrow> error + ListObjectsV2Output option" where
  "listRunActivities s bucket region run =
     ListObjectsV2 (awsManager s) region
       \<lparr>ListObjectsV2Input.Bucket = bucket,
        Prefix = ''workflows/'' @ JobRecentRun.JobRunId run @ ''/activities/'',
        Delimiter = Some ''/'', ContinuationToken = None, MaxKeys = None\<rparr>"

definition runHasData :: "Service \<Rightarrow> string \<Rightarrow> string option \<Rightarrow> JobRecentRun \<Rightarrow> bool" where
  "runHasData s bucket region run =
     (case listRunActivities s bucket region run of
        Inr (Some output) \<Rightarrow> (case KeyCount output of Some n \<Rightarrow> n > 0 | None \<Rightarrow> False)
      | _ \<Rightarrow> False)"

definition runIsEmpty :: "Service \<Rightarrow> string \<Rightarrow> string option \<Rightarrow> JobRecentRun \<Rightarrow> bool" where
  "runIsEmpty s bucket region run =
     (case listRunActivities s bucket region run of
        Inr None \<Rightarrow> True
      | Inr (Some output) \<Rightarrow> (case KeyCount output of Some n \<Rightarrow> n \<le> 0 | None \<Rightarrow> False)
      | Inl err \<Rightarrow> False)"

subsection \<open>Collaborators for the examples\<close>

text \<open>A service none of whose collaborators answers; the examples override what they use.\<close>

definition unavailable :: error where
  "unavailable = PlainError ''unavailable''"

definition offlineService :: Service where
  "offlineService =
     \<lparr>connectionService = \<lparr>GetConnection = (\<lambda>id. Inl unavailable)\<rparr>,
      jobService = \<lparr>GetJobRecentRuns = (\<lambda>jobId. Inl unavailable)\<rparr>,
      awsManager = \<lparr>NewS3Client = (\<lambda>cfg. Some unavailable),
                    ListObjectsV2 = (\<lambda>region input. Inl unavailable),
                    GetObject = (\<lambda>region input. Inl unavailable)\<rparr>,
      sqlConnector = \<lparr>NewDbFromConnectionConfig = (\<lambda>cfg. Inl unavailable),
                      NewPgPoolFromConnectionConfig = (\<lambda>cfg. Inl unavailable)\<rparr>,
      sqlmanager = \<lparr>NewSqlDb = (\<lambda>c. Inl unavailable)\<rparr>,
      pgquerier = \<lparr>GetDatabaseTableSchema = (\<lambda>db schema table. Inl unavailable)\<rparr>,
      mysqlquerier = \<lparr>MysqlQuerier.GetDatabaseSchema = (\<lambda>db. Inl unavailable)\<rparr>,
      verifyUserInAccount = (\<lambda>accountId. Some unavailable)\<rparr>"

text \<open>A listing output with the given key count and nothing else.\<close>

definition listingWithKeyCount :: "int \<Rightarrow> ListObjectsV2Output" where
  "listingWithKeyCount n =
     \<lparr>Contents = [], CommonPrefixes = [], KeyCount = Some n, IsTruncated = Some False,
      NextContinuationToken = None\<rparr>"

text \<open>
  Job \<open>job-1\<close> has the runs \<open>r1\<close>, \<open>r2\<close>, \<open>r3\<close>; only the listing of \<open>r2\<close> has keys. The
  history is given in the order of the argument.
\<close>

definition runsService :: "string list \<Rightarrow> string list \<Rightarrow> Service" where
  "runsService history withData =
     offlineService
       \<lparr>jobService := \<lparr>GetJobRecentRuns = (\<lambda>jobId. Inr (map (\<lambda>r. \<lparr>JobRecentRun.JobRunId = r\<rparr>) history))\<rparr>,
        awsManager := \<lparr>NewS3Client = (\<lambda>cfg. None),
          ListObjectsV2 = (\<lambda>region input.
             Inr (Some (listingWithKeyCount
               (if ListObjectsV2Input.Prefix input \<in> set (map (\<lambda>r. ''workflows/'' @ r @ ''/activities/'') withData)
                then 2 else 0)))),
          GetObject = (\<lambda>region input. Inl unavailable)\<rparr>\<rparr>"

section \<open>JSON lines of S3 objects\<close>

text \<open>
  The body of the loop \<^verbatim>\<open>for key, value := range data\<close> of \<^verbatim>\<open>GetConnectionDataStream\<close>:
  a string is taken as its bytes, any other value is marshalled, and the encoding
  \<^verbatim>\<open>null\<close> is replaced by a nil slice.
\<close>

definition rowValue :: "Imports \<Rightarrow> json \<Rightarrow> error + bytes option" where
  "rowValue im v =
     (case v of
        JString str \<Rightarrow> Inr (Some str)
      | _ \<Rightarrow> (case json_Marshal im v of
                Inl err \<Rightarrow> Inl err
              | Inr byteValue \<Rightarrow> if byteValue = ''null'' then Inr None else Inr (Some byteValue)))"

fun buildRowMap :: "Imports \<Rightarrow> (string \<times> json) list \<Rightarrow> Row \<Rightarrow> error + Row" where
  "buildRowMap im [] rowMap = Inr rowMap"
| "buildRowMap im ((k, v) # rest) rowMap =
     (case rowValue im v of
        Inl err \<Rightarrow> Inl err
      | Inr byteValue \<Rightarrow> buildRowMap im rest (rowMap(k \<mapsto> byteValue)))"

text \<open>
  Library functions for the examples: \<^verbatim>\<open>json.Marshal\<close> on nil, the booleans and the
  number 5, and \<^verbatim>\<open>json.Unmarshal\<close> on the lines the examples use.
\<close>

definition sampleMarshal :: "json \<Rightarrow> error + bytes" where
  "sampleMarshal v =
     (if v = JNull then Inr ''null''
      else if v = JBool True then Inr ''true''
      else if v = JBool False then Inr ''false''
      else if v = JNumber 5 then Inr ''5''
      else Inl (PlainError ''json: value outside the examples''))"

definition sampleLine :: bytes where
  "sampleLine = ''{\"a\": \"x\", \"b\": 5, \"c\": null}''"

definition sampleUnmarshal :: "bytes \<Rightarrow> error + (string \<times> json) list" where
  "sampleUnmarshal line =
     (if line = sampleLine then Inr [(''a'', JString ''x''), (''b'', JNumber 5), (''c'', JNull)]
      else if line = ''{\"a\": 5}'' then Inr [(''a'', JNumber 5)]
      else Inl (PlainError ''invalid character''))"

text \<open>
  The driver's decoding of a date, on the values the examples use: a date is a time at
  midnight UTC, and the special value \<^verbatim>\<open>infinity\<close> is handed over as a string.
\<close>

definition dateValue :: "int \<Rightarrow> nat \<Rightarrow> nat \<Rightarrow> Time" where
  "dateValue y m d = \<lparr>year = y, month = m, day = d, hour = 0, minute = 0, second = 0,
                        nanosecond = 0, zoneOffset = 0\<rparr>"

definition leapDay :: Time where
  "leapDay = dateValue 2024 2 29"

definition farDay :: Time where
  "farDay = dateValue 10000 1 1"

definition sampleDecodeDate :: "bytes \<Rightarrow> error + ScanInput" where
  "sampleDecodeDate src =
     (if src = ''2024-02-29'' then Inr (ScanTime leapDay)
      else if src = ''10000-01-01'' then Inr (ScanTime farDay)
      else if src = ''infinity'' then Inr (ScanOther ''string'')
      else Inl (PlainError ''invalid date''))"

text \<open>Three columns of a Postgres table: a UUID, a date and a text column.\<close>

definition sampleColumns :: "FieldDescription list" where
  "sampleColumns = [\<lparr>Name = ''id'', DataTypeOID = 2950\<rparr>, \<lparr>Name = ''born'', DataTypeOID = 1082\<rparr>,
                    \<lparr>Name = ''name'', DataTypeOID = 25\<rparr>]"

definition sampleImports :: Imports where
  "sampleImports =
     \<lparr>BuildTable = (\<lambda>schema table. if schema \<noteq> [] then schema @ ''.'' @ table else table),
      BuildMysqlTruncateStatement = (\<lambda>schema table. Inr (''TRUNCATE TABLE `'' @ schema @ ''`.`'' @ table @ ''`;'')),
      BuildPgTruncateCascadeStatement = (\<lambda>schema table. Inr (''TRUNCATE TABLE \"'' @ schema @ ''\".\"'' @ table @ ''\" CASCADE;'')),
      IsNoRows = (\<lambda>err. False),
      json_Unmarshal = sampleUnmarshal,
      json_Marshal = sampleMarshal,
      decodeDate = sampleDecodeDate\<rparr>"

text \<open>A value that the loop converts without an error: a string, or a value that marshals.\<close>

definition marshals :: "Imports \<Rightarrow> json \<Rightarrow> bool" where
  "marshals im v =
     (case v of
        JString str \<Rightarrow> True
      | _ \<Rightarrow> (case json_Marshal im v of Inr b \<Rightarrow> True | Inl err \<Rightarrow> False))"

section \<open>Rows of SQL cursors\<close>

subsection \<open>The response stream\<close>

text \<open>
  The caller's stream: \<open>Send\<close> gets the rows sent so far and the next row, and accepts it
  (\<open>None\<close>) or fails. A call of the service leaves a trace: the rows it sent, and the
  object bodies and gzip readers it opened and closed, named by the object's key.
\<close>

record ServerStream =
  Send :: "Row list \<Rightarrow> Row \<Rightarrow> error option"

datatype Resource = ObjectBody string | GzipReader string

datatype event = Sent Row | Opened Resource | Closed Resource

fun sentRows :: "event list \<Rightarrow> Row list" where
  "sentRows [] = []"
| "sentRows (Sent row # tr) = row # sentRows tr"
| "sentRows (e # tr) = sentRows tr"

definition streamSend :: "ServerStream \<Rightarrow> event list \<Rightarrow> Row \<Rightarrow> error + event list" where
  "streamSend stream tr row =
     (case Send stream (sentRows tr) row of
        Some err \<Rightarrow> Inl err
      | None \<Rightarrow> Inr (tr @ [Sent row]))"

subsection \<open>DateScanner\<close>

text \<open>
  \<^verbatim>\<open>DateScanner{val *time.Time}\<close>: the pointer \<open>val\<close> is \<open>None\<close> when nil and \<open>Some t\<close> when it
  points to a variable that holds \<open>t\<close>. \<^verbatim>\<open>Scan\<close> returns the error, or the scanner with the
  variable as \<^verbatim>\<open>Scan\<close> leaves it.
\<close>

record DateScanner =
  val :: "Time option"

definition DateScanner_Scan :: "DateScanner \<Rightarrow> ScanInput \<Rightarrow> error + DateScanner" where
  "DateScanner_Scan ds input =
     (case input of
        ScanNil \<Rightarrow> Inr ds
      | ScanTime t \<Rightarrow>
          (case deref (val ds) of
             Inl p \<Rightarrow> Inl p
           | Inr old \<Rightarrow> Inr (ds\<lparr>val := Some t\<rparr>))
      | ScanOther ty \<Rightarrow> Inl (PlainError (''unable to scan type '' @ ty @ '' into DateScanner'')))"

text \<open>The zero \<^verbatim>\<open>time.Time\<close> of \<^verbatim>\<open>var t time.Time\<close>: January 1, year 1, 00:00:00 UTC.\<close>

definition zeroTime :: Time where
  "zeroTime = \<lparr>year = 1, month = 1, day = 1, hour = 0, minute = 0, second = 0,
               nanosecond = 0, zoneOffset = 0\<rparr>"

subsection \<open>Formatting a time as RFC 3339\<close>

text \<open>
  \<^verbatim>\<open>t.Format(time.RFC3339)\<close>, after \<^verbatim>\<open>appendInt\<close> and \<^verbatim>\<open>appendFormatRFC3339\<close> of package
  \<^verbatim>\<open>time\<close>: the decimal digits of a number padded with zeros to a width, behind a minus
  sign when it is negative; the nanoseconds are not printed; the zone is \<^verbatim>\<open>Z\<close> when the
  offset is 0 and a signed \<^verbatim>\<open>hh:mm\<close> otherwise.
\<close>

definition utod :: "nat \<Rightarrow> char" where
  "utod u = char_of (48 + u)"

function decimal :: "nat \<Rightarrow> string" where
  "decimal u = (if u < 10 then [utod u] else decimal (u div 10) @ [utod (u mod 10)])"
  by pat_completeness auto
termination
  by (relation "measure id") auto

declare decimal.simps [simp del]

definition appendInt :: "int \<Rightarrow> nat \<Rightarrow> string" where
  "appendInt x width =
     (let ds = decimal (nat \<bar>x\<bar>)
      in (if x < 0 then ''-'' else []) @ replicate (width - length ds) CHR ''0'' @ ds)"

definition Format_RFC3339 :: "Time \<Rightarrow> string" where
  "Format_RFC3339 t =
     appendInt (year t) 4 @ ''-'' @ appendInt (int (month t)) 2 @ ''-'' @ appendInt (int (day t)) 2
     @ ''T'' @ appendInt (int (hour t)) 2 @ '':'' @ appendInt (int (minute t)) 2
     @ '':'' @ appendInt (int (second t)) 2
     @ (if zoneOffset t = 0 then ''Z''
        else let zone = nat (\<bar>zoneOffset t\<bar> div 60)
             in (if zoneOffset t < 0 then ''-'' else ''+'')
                @ appendInt (int (zone div 60)) 2 @ '':'' @ appendInt (int (zone mod 60)) 2)"

subsection \<open>UUIDs\<close>

text \<open>
  \<^verbatim>\<open>uuid.FromBytes\<close> takes exactly 16 bytes; \<^verbatim>\<open>String\<close> prints them as lower-case
  hexadecimal digits in groups of 8, 4, 4, 4 and 12.
\<close>

definition uuid_FromBytes :: "bytes option \<Rightarrow> error + bytes" where
  "uuid_FromBytes input =
     (let b = (case input of None \<Rightarrow> [] | Some bs \<Rightarrow> bs)
      in if length b \<noteq> 16
         then Inl (PlainError (''uuid: UUID must be exactly 16 bytes long, got '' @ decimal (length b) @ '' bytes''))
         else Inr b)"

definition hexdigit :: "nat \<Rightarrow> char" where
  "hexdigit n = ''0123456789abcdef'' ! n"

fun encodeHex :: "bytes \<Rightarrow> string" where
  "encodeHex [] = []"
| "encodeHex (c # cs) = hexdigit (of_char c div 16) # hexdigit (of_char c mod 16) # encodeHex cs"

definition uuid_String :: "bytes \<Rightarrow> string" where
  "uuid_String u =
     encodeHex (take 4 u) @ ''-'' @ encodeHex (take 2 (drop 4 u)) @ ''-''
     @ encodeHex (take 2 (drop 6 u)) @ ''-'' @ encodeHex (take 2 (drop 8 u)) @ ''-''
     @ encodeHex (drop 10 u)"

subsection \<open>Rows of a Postgres cursor\<close>

text \<open>
  The targets of \<^verbatim>\<open>rows.Scan\<close>: for a column whose type OID is 1082 (date) a fresh
  \<^verbatim>\<open>DateScanner\<close> whose \<open>val\<close> points to a zero time, for any other column the address of
  \<^verbatim>\<open>values[i]\<close>.
\<close>

datatype ScanTarget = DateTarget DateScanner | BytesTarget nat

fun wrapValues :: "FieldDescription list \<Rightarrow> nat \<Rightarrow> ScanTarget list" where
  "wrapValues [] i = []"
| "wrapValues (col # cols) i =
     (if DataTypeOID col = 1082 then DateTarget \<lparr>val = Some zeroTime\<rparr> else BytesTarget i)
     # wrapValues cols (Suc i)"

text \<open>
  \<^verbatim>\<open>rows.Scan\<close> of the Postgres driver: it fails when the number of targets is not the
  number of cells; a \<^verbatim>\<open>sql.Scanner\<close> target gets nil for SQL NULL and the decoded value
  otherwise; a \<^verbatim>\<open>*[]byte\<close> target gets the cell, nil for SQL NULL.
\<close>

fun pgScanTargets :: "Imports \<Rightarrow> ScanTarget list \<Rightarrow> bytes option list \<Rightarrow> bytes option list
    \<Rightarrow> error + (bytes option list \<times> ScanTarget list)" where
  "pgScanTargets im [] cells values = Inr (values, [])"
| "pgScanTargets im (target # targets) [] values = Inl (PlainError ''number of field descriptions must equal number of destinations'')"
| "pgScanTargets im (DateTarget ds # targets) (cell # cells) values =
     (case (case cell of None \<Rightarrow> Inr ScanNil | Some src \<Rightarrow> decodeDate im src) of
        Inl err \<Rightarrow> Inl err
      | Inr input \<Rightarrow>
          (case DateScanner_Scan ds input of
             Inl err \<Rightarrow> Inl err
           | Inr ds' \<Rightarrow>
               (case pgScanTargets im targets cells values of
                  Inl err \<Rightarrow> Inl err
                | Inr (values', targets') \<Rightarrow> Inr (values', DateTarget ds' # targets'))))"
| "pgScanTargets im (BytesTarget i # targets) (cell # cells) values =
     (case pgScanTargets im targets cells (values[i := cell]) of
        Inl err \<Rightarrow> Inl err
      | Inr (values', targets') \<Rightarrow> Inr (values', BytesTarget i # targets'))"

definition pgScan :: "Imports \<Rightarrow> ScanTarget list \<Rightarrow> bytes option list \<Rightarrow> bytes option list
    \<Rightarrow> error + (bytes option list \<times> ScanTarget list)" where
  "pgScan im targets cells values =
     (if length targets \<noteq> length cells
      then Inl (PlainError (''number of field descriptions must equal number of destinations, got ''
                  @ decimal (length cells) @ '' and '' @ decimal (length targets)))
      else pgScanTargets im targets cells values)"

text \<open>
  The payload of one column (the body of \<^verbatim>\<open>for i, v := range values\<close>): \<open>col\<close> is
  \<^verbatim>\<open>r.FieldDescriptions()[i]\<close>, \<open>target\<close> is \<^verbatim>\<open>valuesWrapped[i]\<close> and \<open>v\<close> is \<^verbatim>\<open>values[i]\<close>.
\<close>

definition pgRowValue :: "FieldDescription \<Rightarrow> ScanTarget \<Rightarrow> bytes option \<Rightarrow> bytes option" where
  "pgRowValue col target v =
     (if DataTypeOID col = 1082 then
        (case target of
           DateTarget ds \<Rightarrow> (case val ds of Some t \<Rightarrow> Some (Format_RFC3339 t) | None \<Rightarrow> v)
         | BytesTarget i \<Rightarrow> v)
      else if DataTypeOID col = 2950 then
        (case uuid_FromBytes v of
           Inr uuidValue \<Rightarrow> Some (uuid_String uuidValue)
         | Inl err \<Rightarrow> v)
      else v)"

fun pgBuildRow :: "string list \<Rightarrow> FieldDescription list \<Rightarrow> ScanTarget list \<Rightarrow> bytes option list \<Rightarrow> Row \<Rightarrow> Row" where
  "pgBuildRow (name # names) (col # cols) (target # targets) (v # values) row =
     pgBuildRow names cols targets values (row(name \<mapsto> pgRowValue col target v))"
| "pgBuildRow names cols targets values row = row"

text \<open>
  One turn of \<^verbatim>\<open>for rows.Next()\<close> on a Postgres cursor: the column names are the names of
  the field descriptions, so the three lists and \<^verbatim>\<open>values\<close> have the same length and no
  index is out of range.
\<close>

definition pgRow :: "Imports \<Rightarrow> FieldDescription list \<Rightarrow> bytes option list \<Rightarrow> error + Row" where
  "pgRow im cols cells =
     (let columnNames = map Name cols;
          values = replicate (length columnNames) None;
          valuesWrapped = wrapValues cols 0
      in case pgScan im valuesWrapped cells values of
           Inl err \<Rightarrow> Inl err
         | Inr (values', scanned) \<Rightarrow> Inr (pgBuildRow columnNames cols scanned values' Map.empty))"

fun pgStreamRows :: "Imports \<Rightarrow> ServerStream \<Rightarrow> FieldDescription list \<Rightarrow> bytes option list list
    \<Rightarrow> event list \<Rightarrow> event list \<times> error option" where
  "pgStreamRows im stream cols [] tr = (tr, None)"
| "pgStreamRows im stream cols (cells # rest) tr =
     (case pgRow im cols cells of
        Inl err \<Rightarrow> (tr, Some err)
      | Inr row \<Rightarrow>
          (case streamSend stream tr row of
             Inl err \<Rightarrow> (tr, Some err)
           | Inr tr' \<Rightarrow> pgStreamRows im stream cols rest tr'))"

subsection \<open>Rows of a MySQL cursor\<close>

text \<open>
  \<^verbatim>\<open>rows.Scan\<close> of \<^verbatim>\<open>database/sql\<close> into \<^verbatim>\<open>*[]byte\<close> targets: it fails when the number of
  targets is not the number of cells, and stores each cell, nil for SQL NULL.
\<close>

fun mysqlBuildRow :: "string list \<Rightarrow> bytes option list \<Rightarrow> Row \<Rightarrow> Row" where
  "mysqlBuildRow (col # columnNames) (v # values) row = mysqlBuildRow columnNames values (row(col \<mapsto> v))"
| "mysqlBuildRow columnNames values row = row"

definition mysqlRow :: "string list \<Rightarrow> bytes option list \<Rightarrow> error + Row" where
  "mysqlRow columnNames cells =
     (if length cells \<noteq> length columnNames
      then Inl (PlainError (''sql: expected '' @ decimal (length cells)
                  @ '' destination arguments in Scan, not '' @ decimal (length columnNames)))
      else Inr (mysqlBuildRow columnNames cells Map.empty))"

fun mysqlStreamRows :: "ServerStream \<Rightarrow> string list \<Rightarrow> bytes option list list
    \<Rightarrow> event list \<Rightarrow> event list \<times> error option" where
  "mysqlStreamRows stream columnNames [] tr = (tr, None)"
| "mysqlStreamRows stream columnNames (cells # rest) tr =
     (case mysqlRow columnNames cells of
        Inl err \<Rightarrow> (tr, Some err)
      | Inr row \<Rightarrow>
          (case streamSend stream tr row of
             Inl err \<Rightarrow> (tr, Some err)
           | Inr tr' \<Rightarrow> mysqlStreamRows stream columnNames rest tr'))"

subsection \<open>Reading a payload back\<close>

text \<open>
  \<^verbatim>\<open>parseRFC3339\<close> of package \<^verbatim>\<open>time\<close>, which \<^verbatim>\<open>time.Parse(time.RFC3339, s)\<close> tries first:
  four year digits, two digits for each other field, each within its range, the
  separators, an optional fraction of a second, and the zone \<^verbatim>\<open>Z\<close> or a signed \<^verbatim>\<open>hh:mm\<close>.
  On a string that \<^verbatim>\<open>parseRFC3339\<close> rejects, \<^verbatim>\<open>time.Parse\<close> runs its general layout parser,
  which is not modelled; it reads exactly four year digits and then requires \<^verbatim>\<open>-\<close> as well.
\<close>

definition isDigit :: "char \<Rightarrow> bool" where
  "isDigit c = (48 \<le> (of_char c :: nat) \<and> (of_char c :: nat) \<le> 57)"

fun atoi :: "string \<Rightarrow> nat \<Rightarrow> nat option" where
  "atoi [] x = Some x"
| "atoi (c # cs) x = (if isDigit c then atoi cs (x * 10 + (of_char c - 48)) else None)"

definition parseUint :: "string \<Rightarrow> nat \<Rightarrow> nat \<Rightarrow> nat option" where
  "parseUint s lo hi =
     (case atoi s 0 of
        None \<Rightarrow> None
      | Some x \<Rightarrow> if x < lo \<or> hi < x then None else Some x)"

definition isLeap :: "nat \<Rightarrow> bool" where
  "isLeap y = (y mod 4 = 0 \<and> (y mod 100 \<noteq> 0 \<or> y mod 400 = 0))"

definition daysIn :: "nat \<Rightarrow> nat \<Rightarrow> nat" where
  "daysIn m y =
     (if m = 2 \<and> isLeap y then 29
      else [31, 28, 31, 30, 31, 30, 31, 31, 30, 31, 30, 31] ! (m - 1))"

definition parseFraction :: "string \<Rightarrow> nat \<times> string" where
  "parseFraction s =
     (if length s \<ge> 2 \<and> s ! 0 = CHR ''.'' \<and> isDigit (s ! 1) then
        (let digits = takeWhile isDigit (drop 1 s);
             kept = take 9 digits
         in (case atoi kept 0 of
               None \<Rightarrow> (0, drop (1 + length digits) s)
             | Some ns \<Rightarrow> (ns * 10 ^ (9 - length kept), drop (1 + length digits) s)))
      else (0, s))"

definition parseZone :: "string \<Rightarrow> int option" where
  "parseZone s =
     (if s = ''Z'' then Some 0
      else if length s \<noteq> 6 then None
      else (case parseUint (take 2 (drop 1 s)) 0 23 of
              None \<Rightarrow> None
            | Some hr \<Rightarrow>
                (case parseUint (take 2 (drop 4 s)) 0 59 of
                   None \<Rightarrow> None
                 | Some mm \<Rightarrow>
                     if \<not> ((s ! 0 = CHR ''-'' \<or> s ! 0 = CHR ''+'') \<and> s ! 3 = CHR '':'') then None
                     else if s ! 0 = CHR ''-'' then Some (- int ((hr * 60 + mm) * 60))
                     else Some (int ((hr * 60 + mm) * 60)))))"

definition parseRFC3339 :: "string \<Rightarrow> Time option" where
  "parseRFC3339 s =
     (if length s < 19 then None
      else
        (case parseUint (take 4 s) 0 9999 of None \<Rightarrow> None | Some y \<Rightarrow>
        (case parseUint (take 2 (drop 5 s)) 1 12 of None \<Rightarrow> None | Some mo \<Rightarrow>
        (case parseUint (take 2 (drop 8 s)) 1 (daysIn mo y) of None \<Rightarrow> None | Some d \<Rightarrow>
        (case parseUint (take 2 (drop 11 s)) 0 23 of None \<Rightarrow> None | Some h \<Rightarrow>
        (case parseUint (take 2 (drop 14 s)) 0 59 of None \<Rightarrow> None | Some mi \<Rightarrow>
        (case parseUint (take 2 (drop 17 s)) 0 59 of None \<Rightarrow> None | Some sec \<Rightarrow>
           if \<not> (s ! 4 = CHR ''-'' \<and> s ! 7 = CHR ''-'' \<and> s ! 10 = CHR ''T''
                 \<and> s ! 13 = CHR '':'' \<and> s ! 16 = CHR '':'') then None
           else
             (case parseFraction (drop 19 s) of
                (nsec, rest) \<Rightarrow>
                  (case parseZone rest of
                     None \<Rightarrow> None
                   | Some off \<Rightarrow>
                       Some \<lparr>year = int y, month = mo, day = d, hour = h, minute = mi,
                             second = sec, nanosecond = nsec, zoneOffset = off\<rparr>)))))))))"

text \<open>
  The canonical case of \<^verbatim>\<open>uuid.FromString\<close>: 36 characters, \<^verbatim>\<open>-\<close> at the positions 8, 13, 18
  and 23, and two hexadecimal digits (of either case) for each of the 16 bytes.
\<close>

definition fromHexChar :: "char \<Rightarrow> nat option" where
  "fromHexChar c =
     (let n = (of_char c :: nat)
      in if 48 \<le> n \<and> n \<le> 57 then Some (n - 48)
         else if 97 \<le> n \<and> n \<le> 102 then Some (n - 97 + 10)
         else if 65 \<le> n \<and> n \<le> 70 then Some (n - 65 + 10)
         else None)"

fun decodeHex :: "string \<Rightarrow> bytes option" where
  "decodeHex [] = Some []"
| "decodeHex [c] = None"
| "decodeHex (hi # lo # cs) =
     (case fromHexChar hi of
        None \<Rightarrow> None
      | Some h \<Rightarrow>
          (case fromHexChar lo of
             None \<Rightarrow> None
           | Some l \<Rightarrow>
               (case decodeHex cs of
                  None \<Rightarrow> None
                | Some bs \<Rightarrow> Some (char_of (h * 16 + l) # bs))))"

definition uuid_decodeCanonical :: "string \<Rightarrow> bytes option" where
  "uuid_decodeCanonical t =
     (if length t \<noteq> 36 then None
      else if t ! 8 \<noteq> CHR ''-'' \<or> t ! 13 \<noteq> CHR ''-'' \<or> t ! 18 \<noteq> CHR ''-'' \<or> t ! 23 \<noteq> CHR ''-''
      then None
      else decodeHex (take 8 t @ take 4 (drop 9 t) @ take 4 (drop 14 t) @ take 4 (drop 19 t)
                      @ drop 24 t))"

text \<open>
  The canonical textual form of a UUID: 36 characters, \<^verbatim>\<open>-\<close> at the positions 8, 13, 18 and
  23, a lower-case hexadecimal digit everywhere else.
\<close>

definition isCanonicalUUID :: "string \<Rightarrow> bool" where
  "isCanonicalUUID t =
     (length t = 36 \<and> t ! 8 = CHR ''-'' \<and> t ! 13 = CHR ''-'' \<and> t ! 18 = CHR ''-'' \<and> t ! 23 = CHR ''-''
      \<and> list_all (\<lambda>c. c \<in> set ''0123456789abcdef'')
            (take 8 t @ take 4 (drop 9 t) @ take 4 (drop 14 t) @ take 4 (drop 19 t) @ drop 24 t))"

text \<open>
  What the Postgres driver decodes from a date column: a date at midnight UTC.
\<close>

definition isDateValue :: "Time \<Rightarrow> bool" where
  "isDateValue t =
     (1 \<le> month t \<and> month t \<le> 12 \<and> 1 \<le> day t \<and> day t \<le> daysIn (month t) (nat (year t))
      \<and> hour t = 0 \<and> minute t = 0 \<and> second t = 0 \<and> nanosecond t = 0 \<and> zoneOffset t = 0)"

text \<open>
  What \<^verbatim>\<open>rows.Scan\<close> leaves for one column: for a date column a \<^verbatim>\<open>DateScanner\<close> that has
  scanned the driver's value, for any other column the cell in \<^verbatim>\<open>values[idx]\<close>.
\<close>

definition columnScanned :: "Imports \<Rightarrow> FieldDescription \<Rightarrow> bytes option \<Rightarrow> nat \<Rightarrow> ScanTarget \<Rightarrow> bytes option \<Rightarrow> bool" where
  "columnScanned im col cell idx target v =
     (if DataTypeOID col = 1082
      then \<exists>input ds. (case cell of None \<Rightarrow> Inr ScanNil | Some src \<Rightarrow> decodeDate im src) = Inr input
             \<and> DateScanner_Scan \<lparr>val = Some zeroTime\<rparr> input = Inr ds \<and> target = DateTarget ds
      else target = BytesTarget idx \<and> v = cell)"

section \<open>Streaming the objects of an S3 run\<close>

text \<open>The text of an error, \<^verbatim>\<open>err.Error()\<close>.\<close>

fun errorMessage :: "error \<Rightarrow> string" where
  "errorMessage (BadRequest m) = m"
| "errorMessage (NotFound m) = m"
| "errorMessage (InternalError m) = m"
| "errorMessage (NotImplemented m) = m"
| "errorMessage (PlainError m) = m"
| "errorMessage (Panic m) = m"

text \<open>Both error paths and the success path end with \<^verbatim>\<open>result.Body.Close(); gzr.Close()\<close>.\<close>

definition closeBoth :: "string \<Rightarrow> event list" where
  "closeBoth k = [Closed (ObjectBody k), Closed (GzipReader k)]"

text \<open>
  The loop \<^verbatim>\<open>for scanner.Scan()\<close> over the lines of one object, and the check of
  \<^verbatim>\<open>scanner.Err()\<close> after it.
\<close>

fun scanLines :: "Imports \<Rightarrow> ServerStream \<Rightarrow> string \<Rightarrow> bytes list \<Rightarrow> error option \<Rightarrow> event list
    \<Rightarrow> event list \<times> error option" where
  "scanLines im stream k [] scanErr tr = (tr @ closeBoth k, scanErr)"
| "scanLines im stream k (line # rest) scanErr tr =
     (case json_Unmarshal im line of
        Inl err \<Rightarrow> (tr @ closeBoth k, Some err)
      | Inr data \<Rightarrow>
          (case buildRowMap im data Map.empty of
             Inl err \<Rightarrow> (tr @ closeBoth k, Some err)
           | Inr rowMap \<Rightarrow>
               (case streamSend stream tr rowMap of
                  Inl err \<Rightarrow> (tr @ closeBoth k, Some err)
                | Inr tr' \<Rightarrow> scanLines im stream k rest scanErr tr')))"

text \<open>The body of \<^verbatim>\<open>for _, item := range output.Contents\<close>.\<close>

definition streamObject :: "Service \<Rightarrow> Imports \<Rightarrow> ServerStream \<Rightarrow> AwsS3ConnectionConfig \<Rightarrow> S3Object
    \<Rightarrow> event list \<Rightarrow> event list \<times> error option" where
  "streamObject s im stream cfg item tr =
     (case deref (S3Object.Key item) of
        Inl p \<Rightarrow> (tr, Some p)
      | Inr k \<Rightarrow>
          (case GetObject (awsManager s) (Region cfg)
                  \<lparr>GetObjectInput.Bucket = AwsS3ConnectionConfig.Bucket cfg, Key = k\<rparr> of
             Inl err \<Rightarrow> (tr, Some err)
           | Inr result \<Rightarrow>
               (case Body result of
                  Inl err \<Rightarrow>
                    (tr @ [Opened (ObjectBody k), Closed (ObjectBody k)],
                     Some (PlainError (''error creating gzip reader: '' @ errorMessage err)))
                | Inr body \<Rightarrow>
                    scanLines im stream k (Lines body) (ScanErr body)
                      (tr @ [Opened (ObjectBody k), Opened (GzipReader k)]))))"

fun streamObjects :: "Service \<Rightarrow> Imports \<Rightarrow> ServerStream \<Rightarrow> AwsS3ConnectionConfig \<Rightarrow> S3Object list
    \<Rightarrow> event list \<Rightarrow> event list \<times> error option" where
  "streamObjects s im stream cfg [] tr = (tr, None)"
| "streamObjects s im stream cfg (item # items) tr =
     (case streamObject s im stream cfg item tr of
        (tr', Some err) \<Rightarrow> (tr', Some err)
      | (tr', None) \<Rightarrow> streamObjects s im stream cfg items tr')"

text \<open>
  The listing loop \<^verbatim>\<open>for { ... }\<close>, which follows continuation tokens for as long as the
  listing says it is truncated; the result is \<open>None\<close> when the loop does not end.
\<close>

partial_function (option) streamPages :: "Service \<Rightarrow> Imports \<Rightarrow> ServerStream \<Rightarrow> AwsS3ConnectionConfig
    \<Rightarrow> string \<Rightarrow> string option \<Rightarrow> event list \<Rightarrow> (event list \<times> error option) option" where
  "streamPages s im stream cfg path pageToken tr =
     (case ListObjectsV2 (awsManager s) (Region cfg)
             \<lparr>ListObjectsV2Input.Bucket = AwsS3ConnectionConfig.Bucket cfg, Prefix = path,
              Delimiter = None, ContinuationToken = pageToken, MaxKeys = None\<rparr> of
        Inl err \<Rightarrow> Some (tr, Some err)
      | Inr None \<Rightarrow> Some (tr, None)
      | Inr (Some output) \<Rightarrow>
          (case streamObjects s im stream cfg (Contents output) tr of
             (tr', Some err) \<Rightarrow> Some (tr', Some err)
           | (tr', None) \<Rightarrow>
               (case deref (IsTruncated output) of
                  Inl p \<Rightarrow> Some (tr', Some p)
                | Inr truncated \<Rightarrow>
                    if truncated
                    then streamPages s im stream cfg path (NextContinuationToken output) tr'
                    else Some (tr', None))))"

section \<open>The schema of an S3 run\<close>

subsection \<open>Functions of package strings\<close>

text \<open>
  \<^verbatim>\<open>strings.Split(s, sep)\<close> cuts \<open>s\<close> at every occurrence of \<open>sep\<close>, from the left and without
  overlap, and returns the pieces, one more than there are occurrences; with an empty
  \<open>sep\<close> it returns the characters of \<open>s\<close>. \<open>splitFrom sep cur s\<close> is the rest of the work when
  \<open>cur\<close> is the piece read so far.
\<close>

function splitFrom :: "string \<Rightarrow> string \<Rightarrow> string \<Rightarrow> string list" where
  "splitFrom sep cur [] = [cur]"
| "splitFrom sep cur (c # cs) =
     (if sep \<noteq> [] \<and> take (length sep) (c # cs) = sep
      then cur # splitFrom sep [] (drop (length sep) (c # cs))
      else splitFrom sep (cur @ [c]) cs)"
  by pat_completeness auto
termination
  by (relation "measure (\<lambda>(sep, cur, s). length s)") auto

definition strings_Split :: "string \<Rightarrow> string \<Rightarrow> string list" where
  "strings_Split s sep = (if sep = [] then map (\<lambda>c. [c]) s else splitFrom sep [] s)"

fun strings_Join :: "string list \<Rightarrow> string \<Rightarrow> string" where
  "strings_Join [] sep = []"
| "strings_Join [x] sep = x"
| "strings_Join (x # y # ys) sep = x @ sep @ strings_Join (y # ys) sep"

text \<open>
  \<^verbatim>\<open>strings.ReplaceAll(s, old, new)\<close>: every occurrence of \<open>old\<close> (from the left, without
  overlap) becomes \<open>new\<close>; with an empty \<open>old\<close>, \<open>new\<close> is put before every character and at
  the end.
\<close>

definition strings_ReplaceAll :: "string \<Rightarrow> string \<Rightarrow> string \<Rightarrow> string" where
  "strings_ReplaceAll s old new =
     (if old = [] then new @ concat (map (\<lambda>c. c # new) s)
      else strings_Join (splitFrom old [] s) new)"

text \<open>A slice index out of range panics; \<open>index xs i\<close> is \<^verbatim>\<open>xs[i]\<close>.\<close>

definition indexOutOfRange :: "nat \<Rightarrow> nat \<Rightarrow> error" where
  "indexOutOfRange i n =
     Panic (''runtime error: index out of range ['' @ decimal i @ ''] with length '' @ decimal n)"

definition index :: "'a list \<Rightarrow> nat \<Rightarrow> error + 'a" where
  "index xs i = (if i < length xs then Inr (xs ! i) else Inl (indexOutOfRange i (length xs)))"

subsection \<open>The columns of one table folder\<close>

text \<open>
  The rest of the loop body of \<^verbatim>\<open>for _, cp := range output.CommonPrefixes\<close> in
  \<^verbatim>\<open>GetConnectionSchema\<close>, from \<^verbatim>\<open>GetObject\<close> on: the keys of the first line of the object
  are the columns of the table. (The closing of the body and of the gzip reader is not
  recorded for this operation.)
\<close>

definition columnsOfObject :: "Service \<Rightarrow> Imports \<Rightarrow> AwsS3ConnectionConfig \<Rightarrow> string \<Rightarrow> string
    \<Rightarrow> S3Object \<Rightarrow> error + DatabaseColumn list" where
  "columnsOfObject s im cfg schema table item =
     (case deref (S3Object.Key item) of
        Inl p \<Rightarrow> Inl p
      | Inr k \<Rightarrow>
          (case GetObject (awsManager s) (Region cfg)
                  \<lparr>GetObjectInput.Bucket = AwsS3ConnectionConfig.Bucket cfg, Key = k\<rparr> of
             Inl err \<Rightarrow> Inl err
           | Inr result \<Rightarrow>
               (case Body result of
                  Inl err \<Rightarrow> Inl (PlainError (''error creating gzip reader: '' @ errorMessage err))
                | Inr body \<Rightarrow>
                    (case Lines body of
                       [] \<Rightarrow> (case ScanErr body of Some err \<Rightarrow> Inl err | None \<Rightarrow> Inr [])
                     | line # rest \<Rightarrow>
                         (case json_Unmarshal im line of
                            Inl err \<Rightarrow> Inl err
                          | Inr data \<Rightarrow>
                              (case FirstScanErr body of
                                 Some err \<Rightarrow> Inl err
                               | None \<Rightarrow>
                                   Inr (map (\<lambda>(k, v).
                                          \<lparr>DatabaseColumn.Schema = schema, DatabaseColumn.Table = table,
                                           DatabaseColumn.Column = k, DatabaseColumn.DataType = [],
                                           DatabaseColumn.IsNullable = [],
                                           DatabaseColumn.ColumnDefault = None,
                                           DatabaseColumn.GeneratedType = None\<rparr>)
                                        data)))))))"

text \<open>
  The loop body up to \<^verbatim>\<open>out.Contents[0]\<close>. The result \<open>Inr None\<close> is the \<^verbatim>\<open>break\<close> taken when
  the listing of the table's data returns no output.
\<close>

definition schemaTableList :: "string \<Rightarrow> string list" where
  "schemaTableList prefix =
     (let folders = strings_Split prefix ''activities'';
          tableFolder = strings_ReplaceAll (last folders) ''/'' []
      in strings_Split tableFolder ''.'')"

definition columnsOfPrefix :: "Service \<Rightarrow> Imports \<Rightarrow> AwsS3ConnectionConfig \<Rightarrow> string \<Rightarrow> CommonPrefix
    \<Rightarrow> error + DatabaseColumn list option" where
  "columnsOfPrefix s im cfg path cp =
     (case deref (CommonPrefix.Prefix cp) of
        Inl p \<Rightarrow> Inl p
      | Inr prefix \<Rightarrow>
          (case index (schemaTableList prefix) 0 of
             Inl p \<Rightarrow> Inl p
           | Inr schema \<Rightarrow>
               (case index (schemaTableList prefix) 1 of
                  Inl p \<Rightarrow> Inl p
                | Inr table \<Rightarrow>
                    (case ListObjectsV2 (awsManager s) (Region cfg)
                            \<lparr>ListObjectsV2Input.Bucket = AwsS3ConnectionConfig.Bucket cfg,
                             Prefix = path @ BuildTable im schema table @ ''/data'',
                             Delimiter = None, ContinuationToken = None, MaxKeys = Some 1\<rparr> of
                       Inl err \<Rightarrow> Inl err
                     | Inr None \<Rightarrow> Inr None
                     | Inr (Some out) \<Rightarrow>
                         (case index (Contents out) 0 of
                            Inl p \<Rightarrow> Inl p
                          | Inr item \<Rightarrow>
                              (case columnsOfObject s im cfg schema table item of
                                 Inl err \<Rightarrow> Inl err
                               | Inr cols \<Rightarrow> Inr (Some cols)))))))"

fun columnsOfPrefixes :: "Service \<Rightarrow> Imports \<Rightarrow> AwsS3ConnectionConfig \<Rightarrow> string \<Rightarrow> CommonPrefix list
    \<Rightarrow> DatabaseColumn list \<Rightarrow> error + DatabaseColumn list" where
  "columnsOfPrefixes s im cfg path [] schemas = Inr schemas"
| "columnsOfPrefixes s im cfg path (cp # cps) schemas =
     (case columnsOfPrefix s im cfg path cp of
        Inl err \<Rightarrow> Inl err
      | Inr None \<Rightarrow> Inr schemas
      | Inr (Some cols) \<Rightarrow> columnsOfPrefixes s im cfg path cps (schemas @ cols))"

partial_function (option) schemaPages :: "Service \<Rightarrow> Imports \<Rightarrow> AwsS3ConnectionConfig \<Rightarrow> string
    \<Rightarrow> string option \<Rightarrow> DatabaseColumn list \<Rightarrow> (error + DatabaseColumn list) option" where
  "schemaPages s im cfg path pageToken schemas =
     (case ListObjectsV2 (awsManager s) (Region cfg)
             \<lparr>ListObjectsV2Input.Bucket = AwsS3ConnectionConfig.Bucket cfg, Prefix = path,
              Delimiter = Some ''/'', ContinuationToken = pageToken, MaxKeys = None\<rparr> of
        Inl err \<Rightarrow> Some (Inl err)
      | Inr None \<Rightarrow> Some (Inr schemas)
      | Inr (Some output) \<Rightarrow>
          (case columnsOfPrefixes s im cfg path (CommonPrefixes output) schemas of
             Inl err \<Rightarrow> Some (Inl err)
           | Inr schemas' \<Rightarrow>
               (case deref (IsTruncated output) of
                  Inl p \<Rightarrow> Some (Inl p)
                | Inr truncated \<Rightarrow>
                    if truncated
                    then schemaPages s im cfg path (NextContinuationToken output) schemas'
                    else Some (Inr schemas'))))"

section \<open>Entry points\<close>

subsection \<open>Requests\<close>

text \<open>
  The request messages, by the fields this file reads. A getter on a nil message returns
  the zero value; a stream or schema configuration that is nil, or whose oneof is unset,
  is \<open>None\<close>.
\<close>

datatype AwsS3StreamConfig_Id =
    AwsS3StreamConfig_JobRunId string
  | AwsS3StreamConfig_JobId string
  | AwsS3StreamConfig_NoId

datatype ConnectionStreamConfig_Config =
    ConnectionStreamConfig_PgConfig
  | ConnectionStreamConfig_MysqlConfig
  | ConnectionStreamConfig_AwsS3Config "AwsS3StreamConfig_Id option"

record GetConnectionDataStreamRequest =
  ConnectionId :: string
  Schema :: string
  Table :: string
  StreamConfig :: "ConnectionStreamConfig_Config option"

datatype AwsS3SchemaConfig_Id =
    AwsS3SchemaConfig_JobRunId string
  | AwsS3SchemaConfig_JobId string
  | AwsS3SchemaConfig_NoId

datatype ConnectionSchemaConfig_Config =
    ConnectionSchemaConfig_PgConfig
  | ConnectionSchemaConfig_MysqlConfig
  | ConnectionSchemaConfig_AwsS3Config "AwsS3SchemaConfig_Id option"

record GetConnectionSchemaRequest =
  ConnectionId :: string
  SchemaConfig :: "ConnectionSchemaConfig_Config option"

definition StreamConfig_GetAwsS3Config :: "ConnectionStreamConfig_Config option \<Rightarrow> AwsS3StreamConfig_Id option" where
  "StreamConfig_GetAwsS3Config c =
     (case c of Some (ConnectionStreamConfig_AwsS3Config x) \<Rightarrow> x | _ \<Rightarrow> None)"

definition SchemaConfig_GetAwsS3Config :: "ConnectionSchemaConfig_Config option \<Rightarrow> AwsS3SchemaConfig_Id option" where
  "SchemaConfig_GetAwsS3Config c =
     (case c of Some (ConnectionSchemaConfig_AwsS3Config x) \<Rightarrow> x | _ \<Rightarrow> None)"

record schemaOpts =
  JobId :: "string option"
  JobRunId :: "string option"

subsection \<open>GetConnectionSchema\<close>

text \<open>
  A result is \<open>None\<close> when a listing loop does not end, and otherwise the error or the
  response.
\<close>

definition toDatabaseColumn :: "DatabaseSchemaRow \<Rightarrow> DatabaseColumn" where
  "toDatabaseColumn col =
     \<lparr>DatabaseColumn.Schema = DatabaseSchemaRow.TableSchema col,
      DatabaseColumn.Table = DatabaseSchemaRow.TableName col,
      DatabaseColumn.Column = DatabaseSchemaRow.ColumnName col,
      DatabaseColumn.DataType = DatabaseSchemaRow.DataType col,
      DatabaseColumn.IsNullable = DatabaseSchemaRow.IsNullable col,
      DatabaseColumn.ColumnDefault =
        (if DatabaseSchemaRow.ColumnDefault col \<noteq> [] then Some (DatabaseSchemaRow.ColumnDefault col)
         else None),
      DatabaseColumn.GeneratedType = DatabaseSchemaRow.GeneratedType col\<rparr>"

definition sqlConnectionSchema :: "Service \<Rightarrow> Connection \<Rightarrow> error + DatabaseColumn list" where
  "sqlConnectionSchema s connection =
     (case NewSqlDb (sqlmanager s) connection of
        Inl err \<Rightarrow> Inl err
      | Inr db \<Rightarrow>
          (case SqlDatabase.GetDatabaseSchema db of
             Inl err \<Rightarrow> Inl err
           | Inr dbschema \<Rightarrow> Inr (map toDatabaseColumn dbschema)))"

definition s3ConnectionSchema :: "Service \<Rightarrow> Imports \<Rightarrow> AwsS3ConnectionConfig \<Rightarrow> GetConnectionSchemaRequest
    \<Rightarrow> (error + DatabaseColumn list) option" where
  "s3ConnectionSchema s im awsS3Config req =
     (case SchemaConfig_GetAwsS3Config (SchemaConfig req) of
        None \<Rightarrow> Some (Inl (BadRequest ''jobId or jobRunId required for AWS S3 connections''))
      | Some awsCfg \<Rightarrow>
          (case NewS3Client (awsManager s) awsS3Config of
             Some err \<Rightarrow> Some (Inl err)
           | None \<Rightarrow>
               (case (case awsCfg of
                        AwsS3SchemaConfig_JobRunId jobRunId \<Rightarrow> Inr jobRunId
                      | AwsS3SchemaConfig_JobId jobId \<Rightarrow>
                          getLastestJobRunFromAwsS3 s jobId (AwsS3ConnectionConfig.Bucket awsS3Config)
                            (Region awsS3Config)
                      | AwsS3SchemaConfig_NoId \<Rightarrow> Inl (InternalError ''unsupported AWS S3 config id'')) of
                  Inl err \<Rightarrow> Some (Inl err)
                | Inr jobRunId \<Rightarrow>
                    schemaPages s im awsS3Config (''workflows/'' @ jobRunId @ ''/activities/'') None [])))"

definition GetConnectionSchema :: "Service \<Rightarrow> Imports \<Rightarrow> GetConnectionSchemaRequest
    \<Rightarrow> (error + DatabaseColumn list) option" where
  "GetConnectionSchema s im req =
     (case GetConnection (connectionService s) (GetConnectionSchemaRequest.ConnectionId req) of
        Inl err \<Rightarrow> Some (Inl err)
      | Inr connection \<Rightarrow>
          (case verifyUserInAccount s (AccountId connection) of
             Some err \<Rightarrow> Some (Inl err)
           | None \<Rightarrow>
               (case ConnectionConfig connection of
                  ConnectionConfig_MysqlConfig c \<Rightarrow> Some (sqlConnectionSchema s connection)
                | ConnectionConfig_PgConfig c \<Rightarrow> Some (sqlConnectionSchema s connection)
                | ConnectionConfig_AwsS3Config awsS3Config \<Rightarrow> s3ConnectionSchema s im awsS3Config req
                | _ \<Rightarrow> Some (Inl (NotImplemented ''this connection config is not currently supported'')))))"

definition getConnectionSchema :: "Service \<Rightarrow> Imports \<Rightarrow> Connection \<Rightarrow> schemaOpts
    \<Rightarrow> (error + DatabaseColumn list) option" where
  "getConnectionSchema s im connection opts =
     (case (case ConnectionConfig connection of
              ConnectionConfig_PgConfig c \<Rightarrow> Inr ConnectionSchemaConfig_PgConfig
            | ConnectionConfig_MysqlConfig c \<Rightarrow> Inr ConnectionSchemaConfig_MysqlConfig
            | ConnectionConfig_AwsS3Config c \<Rightarrow>
                Inr (ConnectionSchemaConfig_AwsS3Config
                  (if schemaOpts.JobRunId opts \<noteq> None \<and> schemaOpts.JobRunId opts \<noteq> Some []
                   then Some (AwsS3SchemaConfig_JobRunId (the (schemaOpts.JobRunId opts)))
                   else if schemaOpts.JobId opts \<noteq> None \<and> schemaOpts.JobId opts \<noteq> Some []
                   then Some (AwsS3SchemaConfig_JobId (the (schemaOpts.JobId opts)))
                   else None))
            | _ \<Rightarrow> Inl (NotImplemented ''this connection config is not currently supported'')) of
        Inl err \<Rightarrow> Some (Inl err)
      | Inr schemaConfig \<Rightarrow>
          GetConnectionSchema s im \<lparr>GetConnectionSchemaRequest.ConnectionId = Connection.Id connection,
             SchemaConfig = Some schemaConfig\<rparr>)"

subsection \<open>Validation of schema and table\<close>

fun isValidTable :: "string \<Rightarrow> DatabaseColumn list \<Rightarrow> bool" where
  "isValidTable table [] = False"
| "isValidTable table (c # columns) =
     (if DatabaseColumn.Table c = table then True else isValidTable table columns)"

fun isValidSchema :: "string \<Rightarrow> DatabaseColumn list \<Rightarrow> bool" where
  "isValidSchema schema [] = False"
| "isValidSchema schema (c # columns) =
     (if DatabaseColumn.Schema c = schema then True else isValidSchema schema columns)"

definition areSchemaAndTableValid :: "Service \<Rightarrow> Imports \<Rightarrow> Connection \<Rightarrow> string \<Rightarrow> string
    \<Rightarrow> error option option" where
  "areSchemaAndTableValid s im connection schema table =
     (case getConnectionSchema s im connection \<lparr>schemaOpts.JobId = None, schemaOpts.JobRunId = None\<rparr> of
        None \<Rightarrow> None
      | Some (Inl err) \<Rightarrow> Some (Some err)
      | Some (Inr schemas) \<Rightarrow>
          if \<not> isValidSchema schema schemas \<or> \<not> isValidTable table schemas
          then Some (Some (BadRequest ''must provide valid schema and table''))
          else Some None)"

subsection \<open>GetConnectionDataStream\<close>

text \<open>
  \<^verbatim>\<open>if err != nil && !nucleusdb.IsNoRows(err) { return err }\<close> after a query: the error that
  is returned, if any.
\<close>

definition queryError :: "Imports \<Rightarrow> error option \<Rightarrow> error option" where
  "queryError im err =
     (case err of
        None \<Rightarrow> None
      | Some e \<Rightarrow> if IsNoRows im e then None else Some e)"

definition mysqlDataStream :: "Service \<Rightarrow> Imports \<Rightarrow> ServerStream \<Rightarrow> Connection
    \<Rightarrow> GetConnectionDataStreamRequest \<Rightarrow> event list \<times> error option" where
  "mysqlDataStream s im stream connection req =
     (case NewDbFromConnectionConfig (sqlConnector s) (ConnectionConfig connection) of
        Inl err \<Rightarrow> ([], Some err)
      | Inr conn \<Rightarrow>
          (case SqlDbContainer.Open conn of
             Inl err \<Rightarrow> ([], Some err)
           | Inr db \<Rightarrow>
               (let tbl = BuildTable im (GetConnectionDataStreamRequest.Schema req)
                            (GetConnectionDataStreamRequest.Table req)
                in case QueryContext db (''SELECT * FROM '' @ tbl @ '' LIMIT 1;'') of
                     (r, err) \<Rightarrow>
                       (case queryError im err of
                          Some e \<Rightarrow> ([], Some e)
                        | None \<Rightarrow>
                            (case deref r of
                               Inl p \<Rightarrow> ([], Some p)
                             | Inr r' \<Rightarrow>
                                 (case SqlRows.Columns r' of
                                    Inl e \<Rightarrow> ([], Some e)
                                  | Inr columnNames \<Rightarrow>
                                      (case QueryContext db
                                              (''SELECT '' @ strings_Join columnNames '', '' @ '' FROM '' @ tbl @ '';'') of
                                         (rows, err') \<Rightarrow>
                                           (case queryError im err' of
                                              Some e \<Rightarrow> ([], Some e)
                                            | None \<Rightarrow>
                                                (case deref rows of
                                                   Inl p \<Rightarrow> ([], Some p)
                                                 | Inr rows' \<Rightarrow>
                                                     mysqlStreamRows stream columnNames
                                                       (SqlRows.RowCells rows') [])))))))))"

definition pgDataStream :: "Service \<Rightarrow> Imports \<Rightarrow> ServerStream \<Rightarrow> string
    \<Rightarrow> GetConnectionDataStreamRequest \<Rightarrow> event list \<times> error option" where
  "pgDataStream s im stream pgConfig req =
     (case NewPgPoolFromConnectionConfig (sqlConnector s) pgConfig of
        Inl err \<Rightarrow> ([], Some err)
      | Inr conn \<Rightarrow>
          (case PgPoolContainer.Open conn of
             Inl err \<Rightarrow> ([], Some err)
           | Inr db \<Rightarrow>
               (let tbl = BuildTable im (GetConnectionDataStreamRequest.Schema req)
                            (GetConnectionDataStreamRequest.Table req)
                in case Query db (''SELECT * FROM '' @ tbl @ '' LIMIT 1;'') of
                     (r, err) \<Rightarrow>
                       (case queryError im err of
                          Some e \<Rightarrow> ([], Some e)
                        | None \<Rightarrow>
                            (let columnNames = map Name (FieldDescriptions r)
                             in case Query db
                                       (''SELECT '' @ strings_Join columnNames '', '' @ '' FROM '' @ tbl @ '';'') of
                                  (rows, err') \<Rightarrow>
                                    (case queryError im err' of
                                       Some e \<Rightarrow> ([], Some e)
                                     | None \<Rightarrow>
                                         pgStreamRows im stream (FieldDescriptions r)
                                           (PgRows.RowCells rows) []))))))"

definition s3DataStream :: "Service \<Rightarrow> Imports \<Rightarrow> ServerStream \<Rightarrow> AwsS3ConnectionConfig
    \<Rightarrow> GetConnectionDataStreamRequest \<Rightarrow> (event list \<times> error option) option" where
  "s3DataStream s im stream awsS3Config req =
     (case StreamConfig_GetAwsS3Config (StreamConfig req) of
        None \<Rightarrow> Some ([], Some (BadRequest ''jobId or jobRunId required for AWS S3 connections''))
      | Some awsS3StreamCfg \<Rightarrow>
          (case NewS3Client (awsManager s) awsS3Config of
             Some err \<Rightarrow> Some ([], Some err)
           | None \<Rightarrow>
               (case (case awsS3StreamCfg of
                        AwsS3StreamConfig_JobRunId jobRunId \<Rightarrow> Inr jobRunId
                      | AwsS3StreamConfig_JobId jobId \<Rightarrow>
                          getLastestJobRunFromAwsS3 s jobId (AwsS3ConnectionConfig.Bucket awsS3Config)
                            (Region awsS3Config)
                      | AwsS3StreamConfig_NoId \<Rightarrow> Inl (InternalError ''unsupported AWS S3 config id'')) of
                  Inl err \<Rightarrow> Some ([], Some err)
                | Inr jobRunId \<Rightarrow>
                    streamPages s im stream awsS3Config
                      (''workflows/'' @ jobRunId @ ''/activities/''
                       @ BuildTable im (GetConnectionDataStreamRequest.Schema req)
                           (GetConnectionDataStreamRequest.Table req)
                       @ ''/data'')
                      None [])))"

definition GetConnectionDataStream :: "Service \<Rightarrow> Imports \<Rightarrow> GetConnectionDataStreamRequest \<Rightarrow> ServerStream
    \<Rightarrow> (event list \<times> error option) option" where
  "GetConnectionDataStream s im req stream =
     (case GetConnection (connectionService s) (GetConnectionDataStreamRequest.ConnectionId req) of
        Inl err \<Rightarrow> Some ([], Some err)
      | Inr connection \<Rightarrow>
          (case verifyUserInAccount s (AccountId connection) of
             Some err \<Rightarrow> Some ([], Some err)
           | None \<Rightarrow>
               (case ConnectionConfig connection of
                  ConnectionConfig_MysqlConfig c \<Rightarrow>
                    (case areSchemaAndTableValid s im connection
                            (GetConnectionDataStreamRequest.Schema req)
                            (GetConnectionDataStreamRequest.Table req) of
                       None \<Rightarrow> None
                     | Some (Some err) \<Rightarrow> Some ([], Some err)
                     | Some None \<Rightarrow> Some (mysqlDataStream s im stream connection req))
                | ConnectionConfig_PgConfig pgConfig \<Rightarrow>
                    (case areSchemaAndTableValid s im connection
                            (GetConnectionDataStreamRequest.Schema req)
                            (GetConnectionDataStreamRequest.Table req) of
                       None \<Rightarrow> None
                     | Some (Some err) \<Rightarrow> Some ([], Some err)
                     | Some None \<Rightarrow> Some (pgDataStream s im stream pgConfig req))
                | ConnectionConfig_AwsS3Config awsS3Config \<Rightarrow> s3DataStream s im stream awsS3Config req
                | _ \<Rightarrow> Some ([], Some (NotImplemented ''this connection config is not currently supported'')))))"

subsection \<open>GetTableRowCount\<close>

record GetTableRowCountRequest =
  ConnectionId :: string
  Schema :: string
  Table :: string
  WhereClause :: "string option"

definition GetTableRowCount :: "Service \<Rightarrow> GetTableRowCountRequest \<Rightarrow> error + int" where
  "GetTableRowCount s req =
     (case GetConnection (connectionService s) (GetTableRowCountRequest.ConnectionId req) of
        Inl err \<Rightarrow> Inl err
      | Inr connection \<Rightarrow>
          (case verifyUserInAccount s (AccountId connection) of
             Some err \<Rightarrow> Inl err
           | None \<Rightarrow>
               (case NewSqlDb (sqlmanager s) connection of
                  Inl err \<Rightarrow> Inl err
                | Inr db \<Rightarrow>
                    SqlDatabase.GetTableRowCount db (GetTableRowCountRequest.Schema req)
                      (GetTableRowCountRequest.Table req) (WhereClause req))))"

subsection \<open>GetConnectionInitStatements\<close>

record InitStatementOptions =
  InitSchema :: bool
  TruncateBeforeInsert :: bool
  TruncateCascade :: bool

record GetConnectionInitStatementsRequest =
  ConnectionId :: string
  Options :: "InitStatementOptions option"

record GetConnectionInitStatementsResponse =
  TableInitStatements :: "string \<rightharpoonup> string"
  TableTruncateStatements :: "string \<rightharpoonup> string"

definition GetInitSchema :: "InitStatementOptions option \<Rightarrow> bool" where
  "GetInitSchema opts = (case opts of None \<Rightarrow> False | Some x \<Rightarrow> InitSchema x)"

definition GetTruncateBeforeInsert :: "InitStatementOptions option \<Rightarrow> bool" where
  "GetTruncateBeforeInsert opts = (case opts of None \<Rightarrow> False | Some x \<Rightarrow> TruncateBeforeInsert x)"

definition GetTruncateCascade :: "InitStatementOptions option \<Rightarrow> bool" where
  "GetTruncateCascade opts = (case opts of None \<Rightarrow> False | Some x \<Rightarrow> TruncateCascade x)"

text \<open>
  \<^verbatim>\<open>schemaTableMap\<close>: the columns under the key \<^verbatim>\<open>BuildTable(s.Schema, s.Table)\<close>, a later
  column replacing an earlier one with the same key. The map is an association list with
  distinct keys; the \<^verbatim>\<open>range\<close> loops visit it in the order of the list (Go leaves the order
  open).
\<close>

definition tableKey :: "Imports \<Rightarrow> DatabaseColumn \<Rightarrow> string" where
  "tableKey im c = BuildTable im (DatabaseColumn.Schema c) (DatabaseColumn.Table c)"

definition schemaTableMapOf :: "Imports \<Rightarrow> DatabaseColumn list \<Rightarrow> (string \<times> DatabaseColumn) list" where
  "schemaTableMapOf im schemaResp = foldl (\<lambda>m c. AList.update (tableKey im c) c m) [] schemaResp"

text \<open>
  The loops \<^verbatim>\<open>for k, v := range schemaTableMap\<close> that build one statement for each entry and
  return the first error.
\<close>

fun statementsFor :: "(string \<Rightarrow> string \<Rightarrow> error + string) \<Rightarrow> (string \<times> DatabaseColumn) list
    \<Rightarrow> (string \<rightharpoonup> string) \<Rightarrow> error + (string \<rightharpoonup> string)" where
  "statementsFor build [] stmts = Inr stmts"
| "statementsFor build ((k, v) # rest) stmts =
     (case build (DatabaseColumn.Schema v) (DatabaseColumn.Table v) of
        Inl err \<Rightarrow> Inl err
      | Inr stmt \<Rightarrow> statementsFor build rest (stmts(k \<mapsto> stmt)))"

definition truncateStatements :: "Imports \<Rightarrow> ConnectionConfig_Config \<Rightarrow> InitStatementOptions option
    \<Rightarrow> (string \<times> DatabaseColumn) list \<Rightarrow> error + (string \<rightharpoonup> string)" where
  "truncateStatements im config opts schemaTableMap =
     (case config of
        ConnectionConfig_MysqlConfig c \<Rightarrow>
          if GetTruncateBeforeInsert opts
          then statementsFor (BuildMysqlTruncateStatement im) schemaTableMap Map.empty
          else Inr Map.empty
      | ConnectionConfig_PgConfig c \<Rightarrow>
          if GetTruncateCascade opts
          then statementsFor (BuildPgTruncateCascadeStatement im) schemaTableMap Map.empty
          else if GetTruncateBeforeInsert opts
          then Inl (NotImplemented ''postgres truncate unsupported. table foreig keys required to build truncate statement.'')
          else Inr Map.empty
      | _ \<Rightarrow> Inl (PlainError ''unsupported connection config''))"

definition GetConnectionInitStatements :: "Service \<Rightarrow> Imports \<Rightarrow> GetConnectionInitStatementsRequest
    \<Rightarrow> (error + GetConnectionInitStatementsResponse) option" where
  "GetConnectionInitStatements s im req =
     (case GetConnection (connectionService s) (GetConnectionInitStatementsRequest.ConnectionId req) of
        Inl err \<Rightarrow> Some (Inl err)
      | Inr connection \<Rightarrow>
          (case verifyUserInAccount s (AccountId connection) of
             Some err \<Rightarrow> Some (Inl err)
           | None \<Rightarrow>
               (case getConnectionSchema s im connection \<lparr>schemaOpts.JobId = None, schemaOpts.JobRunId = None\<rparr> of
                  None \<Rightarrow> None
                | Some (Inl err) \<Rightarrow> Some (Inl err)
                | Some (Inr schemaResp) \<Rightarrow>
                    (let schemaTableMap = schemaTableMapOf im schemaResp
                     in case NewSqlDb (sqlmanager s) connection of
                          Inl err \<Rightarrow> Some (Inl err)
                        | Inr db \<Rightarrow>
                            (case (if GetInitSchema (Options req)
                                   then statementsFor (GetCreateTableStatement db) schemaTableMap Map.empty
                                   else Inr Map.empty) of
                               Inl err \<Rightarrow> Some (Inl err)
                             | Inr createStmtsMap \<Rightarrow>
                                 (case truncateStatements im (ConnectionConfig connection) (Options req)
                                         schemaTableMap of
                                    Inl err \<Rightarrow> Some (Inl err)
                                  | Inr truncateStmtsMap \<Rightarrow>
                                      Some (Inr \<lparr>TableInitStatements = createStmtsMap,
                                                 TableTruncateStatements = truncateStmtsMap\<rparr>)))))))"

subsection \<open>getConnectionTableSchema\<close>

definition getConnectionTableSchema :: "Service \<Rightarrow> Connection \<Rightarrow> string \<Rightarrow> string
    \<Rightarrow> error + DatabaseColumn list" where
  "getConnectionTableSchema s connection schema table =
     (case ConnectionConfig connection of
        ConnectionConfig_PgConfig pgConfig \<Rightarrow>
          (case NewPgPoolFromConnectionConfig (sqlConnector s) pgConfig of
             Inl err \<Rightarrow> Inl err
           | Inr conn \<Rightarrow>
               (case PgPoolContainer.Open conn of
                  Inl err \<Rightarrow> Inl err
                | Inr db \<Rightarrow>
                    (case GetDatabaseTableSchema (pgquerier s) db schema table of
                       Inl err \<Rightarrow> Inl err
                     | Inr dbschema \<Rightarrow>
                         Inr (map (\<lambda>col.
                                \<lparr>DatabaseColumn.Schema = PgTableSchemaRow.SchemaName col,
                                 DatabaseColumn.Table = PgTableSchemaRow.TableName col,
                                 DatabaseColumn.Column = PgTableSchemaRow.ColumnName col,
                                 DatabaseColumn.DataType = PgTableSchemaRow.DataType col,
                                 DatabaseColumn.IsNullable = PgTableSchemaRow.IsNullable col,
                                 DatabaseColumn.ColumnDefault = None,
                                 DatabaseColumn.GeneratedType = None\<rparr>) dbschema))))
      | ConnectionConfig_MysqlConfig c \<Rightarrow>
          (case NewDbFromConnectionConfig (sqlConnector s) (ConnectionConfig connection) of
             Inl err \<Rightarrow> Inl err
           | Inr conn \<Rightarrow>
               (case SqlDbContainer.Open conn of
                  Inl err \<Rightarrow> Inl err
                | Inr db \<Rightarrow>
                    (case MysqlQuerier.GetDatabaseSchema (mysqlquerier s) db of
                       Inl err \<Rightarrow> Inl err
                     | Inr dbschema \<Rightarrow>
                         Inr (map (\<lambda>col.
                                \<lparr>DatabaseColumn.Schema = MysqlSchemaRow.TableSchema col,
                                 DatabaseColumn.Table = MysqlSchemaRow.TableName col,
                                 DatabaseColumn.Column = MysqlSchemaRow.ColumnName col,
                                 DatabaseColumn.DataType = MysqlSchemaRow.DataType col,
                                 DatabaseColumn.IsNullable = MysqlSchemaRow.IsNullable col,
                                 DatabaseColumn.ColumnDefault = None,
                                 DatabaseColumn.GeneratedType = None\<rparr>)
                              (filter (\<lambda>col. \<not> (MysqlSchemaRow.TableSchema col \<noteq> schema
                                                  \<or> MysqlSchemaRow.TableName col \<noteq> table))
                                 dbschema)))))
      | _ \<Rightarrow> Inl (BadRequest ''this connection config is not currently supported''))"

subsection \<open>Constraints\<close>

text \<open>
  The messages of the constraint responses (\<^verbatim>\<open>mgmtv1alpha1.ForeignKey\<close>,
  \<^verbatim>\<open>mgmtv1alpha1.ForeignConstraint\<close>), with the fields either endpoint sets; a field that a
  struct literal leaves out has its zero value.
\<close>

record mgmt_ForeignKey =
  Table :: string
  Column :: string
  Columns :: "string list"

record mgmt_ForeignConstraint =
  Column :: string
  IsNullable :: bool
  Columns :: "string list"
  NotNullable :: "bool list"
  ForeignKey :: mgmt_ForeignKey

text \<open>
  The schemas of the introspected columns, each once (\<^verbatim>\<open>schemaMap\<close> and the list built from
  it; Go leaves the order open).
\<close>

definition schemasOf :: "DatabaseColumn list \<Rightarrow> string list" where
  "schemasOf schemaResp = remdups (map DatabaseColumn.Schema schemaResp)"

text \<open>
  What the four constraint endpoints do first: look the connection up, authorize, read
  the schema, and open the database; they continue with the schemas and the database.
\<close>

definition openForConstraints :: "Service \<Rightarrow> Imports \<Rightarrow> string \<Rightarrow> (error + string list \<times> SqlDatabase) option" where
  "openForConstraints s im connectionId =
     (case GetConnection (connectionService s) connectionId of
        Inl err \<Rightarrow> Some (Inl err)
      | Inr connection \<Rightarrow>
          (case verifyUserInAccount s (AccountId connection) of
             Some err \<Rightarrow> Some (Inl err)
           | None \<Rightarrow>
               (case getConnectionSchema s im connection \<lparr>schemaOpts.JobId = None, schemaOpts.JobRunId = None\<rparr> of
                  None \<Rightarrow> None
                | Some (Inl err) \<Rightarrow> Some (Inl err)
                | Some (Inr schemaResp) \<Rightarrow>
                    (case NewSqlDb (sqlmanager s) connection of
                       Inl err \<Rightarrow> Some (Inl err)
                     | Inr db \<Rightarrow> Some (Inr (schemasOf schemaResp, db))))))"

text \<open>
  \<^verbatim>\<open>for idx, col := range constraint.Columns\<close> of \<^verbatim>\<open>GetConnectionForeignConstraints\<close>; \<open>idx\<close> is
  the index of the head of the columns still to visit.
\<close>

fun foreignConstraintColumns :: "ForeignConstraint \<Rightarrow> nat \<Rightarrow> string list \<Rightarrow> error + mgmt_ForeignConstraint list" where
  "foreignConstraintColumns constraint idx [] = Inr []"
| "foreignConstraintColumns constraint idx (col # cols) =
     (case index (ForeignConstraint.NotNullable constraint) idx of
        Inl p \<Rightarrow> Inl p
      | Inr notNullable \<Rightarrow>
          (case index (ForeignKey.Columns (ForeignConstraint.ForeignKey constraint)) idx of
             Inl p \<Rightarrow> Inl p
           | Inr fkColumn \<Rightarrow>
               (case foreignConstraintColumns constraint (Suc idx) cols of
                  Inl p \<Rightarrow> Inl p
                | Inr rest \<Rightarrow>
                    Inr (\<lparr>mgmt_ForeignConstraint.Column = col,
                          mgmt_ForeignConstraint.IsNullable = (\<not> notNullable),
                          mgmt_ForeignConstraint.Columns = [],
                          mgmt_ForeignConstraint.NotNullable = [],
                          mgmt_ForeignConstraint.ForeignKey =
                            \<lparr>mgmt_ForeignKey.Table = ForeignKey.Table (ForeignConstraint.ForeignKey constraint),
                             mgmt_ForeignKey.Column = fkColumn,
                             mgmt_ForeignKey.Columns = []\<rparr>\<rparr> # rest))))"

fun foreignConstraintsOf :: "ForeignConstraint list \<Rightarrow> error + mgmt_ForeignConstraint list" where
  "foreignConstraintsOf [] = Inr []"
| "foreignConstraintsOf (constraint # d) =
     (case foreignConstraintColumns constraint 0 (ForeignConstraint.Columns constraint) of
        Inl p \<Rightarrow> Inl p
      | Inr cs \<Rightarrow>
          (case foreignConstraintsOf d of
             Inl p \<Rightarrow> Inl p
           | Inr rest \<Rightarrow> Inr (cs @ rest)))"

fun foreignConstraintTables :: "(string \<times> ForeignConstraint list) list
    \<Rightarrow> error + (string \<times> mgmt_ForeignConstraint list) list" where
  "foreignConstraintTables [] = Inr []"
| "foreignConstraintTables ((tableName, d) # rest) =
     (case foreignConstraintsOf d of
        Inl p \<Rightarrow> Inl p
      | Inr cs \<Rightarrow>
          (case foreignConstraintTables rest of
             Inl p \<Rightarrow> Inl p
           | Inr tables \<Rightarrow> Inr ((tableName, cs) # tables)))"

definition GetConnectionForeignConstraints :: "Service \<Rightarrow> Imports \<Rightarrow> string
    \<Rightarrow> (error + (string \<times> mgmt_ForeignConstraint list) list) option" where
  "GetConnectionForeignConstraints s im connectionId =
     (case openForConstraints s im connectionId of
        None \<Rightarrow> None
      | Some (Inl err) \<Rightarrow> Some (Inl err)
      | Some (Inr (schemas, db)) \<Rightarrow>
          (case GetForeignKeyConstraintsMap db schemas of
             Inl err \<Rightarrow> Some (Inl err)
           | Inr foreignKeyMap \<Rightarrow> Some (foreignConstraintTables foreignKeyMap)))"

definition GetConnectionPrimaryConstraints :: "Service \<Rightarrow> Imports \<Rightarrow> string
    \<Rightarrow> (error + (string \<times> string list) list) option" where
  "GetConnectionPrimaryConstraints s im connectionId =
     (case openForConstraints s im connectionId of
        None \<Rightarrow> None
      | Some (Inl err) \<Rightarrow> Some (Inl err)
      | Some (Inr (schemas, db)) \<Rightarrow>
          (case GetPrimaryKeyConstraintsMap db schemas of
             Inl err \<Rightarrow> Some (Inl err)
           | Inr primaryKeysMap \<Rightarrow> Some (Inr primaryKeysMap)))"

definition GetConnectionUniqueConstraints :: "Service \<Rightarrow> Imports \<Rightarrow> string
    \<Rightarrow> (error + (string \<times> string list) list) option" where
  "GetConnectionUniqueConstraints s im connectionId =
     (case openForConstraints s im connectionId of
        None \<Rightarrow> None
      | Some (Inl err) \<Rightarrow> Some (Inl err)
      | Some (Inr (schemas, db)) \<Rightarrow>
          (case GetUniqueConstraintsMap db schemas of
             Inl err \<Rightarrow> Some (Inl err)
           | Inr ucMap \<Rightarrow> Some (Inr (map (\<lambda>(tableName, uc). (tableName, concat uc)) ucMap))))"

record GetConnectionTableConstraintsResponse =
  ForeignKeyConstraints :: "(string \<times> mgmt_ForeignConstraint list) list"
  PrimaryKeyConstraints :: "(string \<times> string list) list"
  UniqueConstraints :: "(string \<times> string list list) list"

definition toTableForeignConstraint :: "ForeignConstraint \<Rightarrow> mgmt_ForeignConstraint" where
  "toTableForeignConstraint constraint =
     \<lparr>mgmt_ForeignConstraint.Column = [],
      mgmt_ForeignConstraint.IsNullable = False,
      mgmt_ForeignConstraint.Columns = ForeignConstraint.Columns constraint,
      mgmt_ForeignConstraint.NotNullable = ForeignConstraint.NotNullable constraint,
      mgmt_ForeignConstraint.ForeignKey =
        \<lparr>mgmt_ForeignKey.Table = ForeignKey.Table (ForeignConstraint.ForeignKey constraint),
         mgmt_ForeignKey.Column = [],
         mgmt_ForeignKey.Columns = ForeignKey.Columns (ForeignConstraint.ForeignKey constraint)\<rparr>\<rparr>"

definition GetConnectionTableConstraints :: "Service \<Rightarrow> Imports \<Rightarrow> string
    \<Rightarrow> (error + GetConnectionTableConstraintsResponse) option" where
  "GetConnectionTableConstraints s im connectionId =
     (case openForConstraints s im connectionId of
        None \<Rightarrow> None
      | Some (Inl err) \<Rightarrow> Some (Inl err)
      | Some (Inr (schemas, db)) \<Rightarrow>
          (case GetTableConstraintsBySchema db schemas of
             Inl err \<Rightarrow> Some (Inl err)
           | Inr tableConstraints \<Rightarrow>
               Some (Inr
                 \<lparr>GetConnectionTableConstraintsResponse.ForeignKeyConstraints =
                    map (\<lambda>(tableName, d). (tableName, map toTableForeignConstraint d))
                      (TableConstraints.ForeignKeyConstraints tableConstraints),
                  GetConnectionTableConstraintsResponse.PrimaryKeyConstraints =
                    TableConstraints.PrimaryKeyConstraints tableConstraints,
                  GetConnectionTableConstraintsResponse.UniqueConstraints =
                    TableConstraints.UniqueConstraints tableConstraints\<rparr>)))"

section \<open>Notions used by the properties\<close>

text \<open>
  The rows of the lines of an object up to the first line that fails to decode or to
  convert, and that failure.
\<close>

fun lineRows :: "Imports \<Rightarrow> bytes list \<Rightarrow> Row list \<times> error option" where
  "lineRows im [] = ([], None)"
| "lineRows im (line # rest) =
     (case json_Unmarshal im line of
        Inl err \<Rightarrow> ([], Some err)
      | Inr data \<Rightarrow>
          (case buildRowMap im data Map.empty of
             Inl err \<Rightarrow> ([], Some err)
           | Inr rowMap \<Rightarrow> (case lineRows im rest of (rows, err) \<Rightarrow> (rowMap # rows, err))))"

text \<open>
  A corrupted object: \<^verbatim>\<open>gzip.NewReader\<close> fails on its body, or a line fails to decode, or the
  scanner ends with a decompression error.
\<close>

definition objectCorrupt :: "Imports \<Rightarrow> GetObjectOutput \<Rightarrow> bool" where
  "objectCorrupt im result =
     (case Body result of
        Inl err \<Rightarrow> True
      | Inr body \<Rightarrow>
          (case snd (lineRows im (Lines body)) of
             Some err \<Rightarrow> True
           | None \<Rightarrow> ScanErr body \<noteq> None))"

text \<open>
  Reading a trace with the readers that are open: a body is opened only when nothing is
  open, a gzip reader only on the open body of the same object, and only an open reader
  is closed. The result is \<open>None\<close> when the trace breaks one of these rules, and the
  readers left open otherwise.
\<close>

fun openAfter :: "Resource list \<Rightarrow> event list \<Rightarrow> Resource list option" where
  "openAfter opened [] = Some opened"
| "openAfter opened (Sent row # tr) = openAfter opened tr"
| "openAfter opened (Opened (ObjectBody k) # tr) =
     (if opened = [] then openAfter [ObjectBody k] tr else None)"
| "openAfter opened (Opened (GzipReader k) # tr) =
     (if opened = [ObjectBody k] then openAfter [ObjectBody k, GzipReader k] tr else None)"
| "openAfter opened (Closed r # tr) =
     (if r \<in> set opened then openAfter (removeAll r opened) tr else None)"

subsection \<open>Services for the examples\<close>

text \<open>
  A service with one connection of the given kind in the account \<open>acct\<close>, to which every
  caller belongs, and a database with the tables \<open>public.users\<close> and \<open>public.orders\<close>.
\<close>

definition sampleSchemaRows :: "DatabaseSchemaRow list" where
  "sampleSchemaRows =
     [\<lparr>DatabaseSchemaRow.TableSchema = ''public'', DatabaseSchemaRow.TableName = ''users'',
       DatabaseSchemaRow.ColumnName = ''id'', DatabaseSchemaRow.DataType = ''uuid'',
       DatabaseSchemaRow.ColumnDefault = [], DatabaseSchemaRow.IsNullable = ''NO'',
       DatabaseSchemaRow.GeneratedType = None\<rparr>,
      \<lparr>DatabaseSchemaRow.TableSchema = ''public'', DatabaseSchemaRow.TableName = ''users'',
       DatabaseSchemaRow.ColumnName = ''born'', DatabaseSchemaRow.DataType = ''date'',
       DatabaseSchemaRow.ColumnDefault = [], DatabaseSchemaRow.IsNullable = ''YES'',
       DatabaseSchemaRow.GeneratedType = None\<rparr>,
      \<lparr>DatabaseSchemaRow.TableSchema = ''public'', DatabaseSchemaRow.TableName = ''orders'',
       DatabaseSchemaRow.ColumnName = ''id'', DatabaseSchemaRow.DataType = ''uuid'',
       DatabaseSchemaRow.ColumnDefault = [], DatabaseSchemaRow.IsNullable = ''NO'',
       DatabaseSchemaRow.GeneratedType = None\<rparr>]"

definition sampleDatabase :: SqlDatabase where
  "sampleDatabase =
     \<lparr>SqlDatabase.GetDatabaseSchema = Inr sampleSchemaRows,
      GetForeignKeyConstraintsMap = (\<lambda>schemas. Inr []),
      GetPrimaryKeyConstraintsMap = (\<lambda>schemas. Inr []),
      GetUniqueConstraintsMap = (\<lambda>schemas. Inr []),
      GetTableConstraintsBySchema = (\<lambda>schemas. Inr
         \<lparr>TableConstraints.ForeignKeyConstraints = [], TableConstraints.PrimaryKeyConstraints = [],
          TableConstraints.UniqueConstraints = []\<rparr>),
      GetCreateTableStatement = (\<lambda>schema table. Inr (''CREATE TABLE '' @ schema @ ''.'' @ table @ '' ();'')),
      SqlDatabase.GetTableRowCount = (\<lambda>schema table whereClause. Inr 7)\<rparr>"

definition sampleConnection :: "ConnectionConfig_Config \<Rightarrow> Connection" where
  "sampleConnection config = \<lparr>Connection.Id = ''conn-1'', AccountId = ''acct'', ConnectionConfig = config\<rparr>"

definition sqlService :: "ConnectionConfig_Config \<Rightarrow> Service" where
  "sqlService config =
     offlineService
       \<lparr>connectionService := \<lparr>GetConnection = (\<lambda>id. Inr (sampleConnection config))\<rparr>,
        sqlmanager := \<lparr>NewSqlDb = (\<lambda>c. Inr sampleDatabase)\<rparr>,
        verifyUserInAccount := (\<lambda>accountId. None)\<rparr>"

text \<open>
  A service with one S3 connection on the bucket \<open>bucket\<close>, whose listings and objects are
  given by the two functions.
\<close>

definition sampleS3Config :: AwsS3ConnectionConfig where
  "sampleS3Config = \<lparr>AwsS3ConnectionConfig.Bucket = ''bucket'', Region = None\<rparr>"

definition s3Service :: "(ListObjectsV2Input \<Rightarrow> error + ListObjectsV2Output option)
    \<Rightarrow> (string \<Rightarrow> error + GetObjectOutput) \<Rightarrow> Service" where
  "s3Service list get =
     offlineService
       \<lparr>connectionService := \<lparr>GetConnection = (\<lambda>id. Inr (sampleConnection (ConnectionConfig_AwsS3Config sampleS3Config)))\<rparr>,
        awsManager := \<lparr>NewS3Client = (\<lambda>cfg. None),
                       ListObjectsV2 = (\<lambda>region input. list input),
                       GetObject = (\<lambda>region input. get (GetObjectInput.Key input))\<rparr>,
        verifyUserInAccount := (\<lambda>accountId. None)\<rparr>"

text \<open>A stream that accepts every row.\<close>

definition acceptingStream :: ServerStream where
  "acceptingStream = \<lparr>Send = (\<lambda>sent row. None)\<rparr>"

section \<open>Verified properties\<close>

subsection \<open>Run resolution\<close>

lemma scanJobRuns_skips_empty:
  "list_all (runIsEmpty s bucket region) newer \<Longrightarrow>
   scanJobRuns s jobId bucket region (newer @ rest) = scanJobRuns s jobId bucket region rest"
proof (induction newer)
  case Nil
  then show ?case by simp
next
  case (Cons run newer)
  from Cons.prems have e: "runIsEmpty s bucket region run"
    and rest: "list_all (runIsEmpty s bucket region) newer" by simp_all
  from e have "scanJobRuns s jobId bucket region (run # newer @ rest) =
               scanJobRuns s jobId bucket region (newer @ rest)"
    by (auto simp: runIsEmpty_def listRunActivities_def deref_def
             split: sum.splits option.splits)
  with Cons.IH [OF rest] show ?case by simp
qed

lemma scanJobRuns_returns_data:
  "runHasData s bucket region run \<Longrightarrow>
   scanJobRuns s jobId bucket region (run # rest) = Inr (JobRecentRun.JobRunId run)"
  by (auto simp: runHasData_def listRunActivities_def deref_def split: sum.splits option.splits)

text \<open>
  Claim C1. When the history that the job service returns, which lists the newest run
  last, contains a run with data and every run after it in the history (every newer run)
  is empty, run resolution returns that run: it scans the runs newest first and returns
  the most recent run with data. With the runs \<open>r1\<close> (empty), \<open>r2\<close> (has data) and
  \<open>r3\<close> (empty) it returns \<open>r2\<close>, in whichever order the three are listed.
\<close>

theorem run_resolution_returns_latest_run_with_data:
  assumes "GetJobRecentRuns (jobService s) jobId = Inr (older @ run # newer)"
    and "runHasData s bucket region run"
    and "list_all (runIsEmpty s bucket region) newer"
  shows "getLastestJobRunFromAwsS3 s jobId bucket region = Inr (JobRecentRun.JobRunId run)"
proof -
  have "rev (older @ run # newer) = rev newer @ run # rev older" by simp
  moreover have "list_all (runIsEmpty s bucket region) (rev newer)"
    using assms(3) by (simp add: list_all_iff)
  ultimately have "scanJobRuns s jobId bucket region (rev (older @ run # newer)) =
        scanJobRuns s jobId bucket region (run # rev older)"
    using scanJobRuns_skips_empty by metis
  also have "\<dots> = Inr (JobRecentRun.JobRunId run)"
    using assms(2) by (rule scanJobRuns_returns_data)
  finally have "scanJobRuns s jobId bucket region (rev (older @ run # newer)) = Inr (JobRecentRun.JobRunId run)" .
  with assms(1) show ?thesis
    by (simp only: getLastestJobRunFromAwsS3_def sum.case)
qed

theorem run_resolution_returns_latest_run_with_data_witness:
  "getLastestJobRunFromAwsS3 (runsService [''r3'', ''r2'', ''r1''] [''r2'']) ''job-1'' ''bucket'' None = Inr ''r2''
   \<and> getLastestJobRunFromAwsS3 (runsService [''r1'', ''r2'', ''r3''] [''r2'']) ''job-1'' ''bucket'' None = Inr ''r2''"
proof -
  let ?s = "runsService [''r3'', ''r2'', ''r1''] [''r2'']"
  let ?t = "runsService [''r1'', ''r2'', ''r3''] [''r2'']"
  have "GetJobRecentRuns (jobService ?s) ''job-1'' = Inr ([\<lparr>JobRecentRun.JobRunId = ''r3''\<rparr>] @ \<lparr>JobRecentRun.JobRunId = ''r2''\<rparr> # [\<lparr>JobRecentRun.JobRunId = ''r1''\<rparr>])"
    by (simp add: runsService_def)
  moreover have "runHasData ?s ''bucket'' None \<lparr>JobRecentRun.JobRunId = ''r2''\<rparr>"
    by (simp add: runHasData_def listRunActivities_def runsService_def listingWithKeyCount_def)
  moreover have "list_all (runIsEmpty ?s ''bucket'' None) [\<lparr>JobRecentRun.JobRunId = ''r1''\<rparr>]"
    by (simp add: runIsEmpty_def listRunActivities_def runsService_def listingWithKeyCount_def)
  ultimately have a: "getLastestJobRunFromAwsS3 ?s ''job-1'' ''bucket'' None = Inr ''r2''"
    using run_resolution_returns_latest_run_with_data [of ?s "''job-1''" "[\<lparr>JobRecentRun.JobRunId = ''r3''\<rparr>]" "\<lparr>JobRecentRun.JobRunId = ''r2''\<rparr>" "[\<lparr>JobRecentRun.JobRunId = ''r1''\<rparr>]" "''bucket''" None]
    by simp
  have "GetJobRecentRuns (jobService ?t) ''job-1'' = Inr ([\<lparr>JobRecentRun.JobRunId = ''r1''\<rparr>] @ \<lparr>JobRecentRun.JobRunId = ''r2''\<rparr> # [\<lparr>JobRecentRun.JobRunId = ''r3''\<rparr>])"
    by (simp add: runsService_def)
  moreover have "runHasData ?t ''bucket'' None \<lparr>JobRecentRun.JobRunId = ''r2''\<rparr>"
    by (simp add: runHasData_def listRunActivities_def runsService_def listingWithKeyCount_def)
  moreover have "list_all (runIsEmpty ?t ''bucket'' None) [\<lparr>JobRecentRun.JobRunId = ''r3''\<rparr>]"
    by (simp add: runIsEmpty_def listRunActivities_def runsService_def listingWithKeyCount_def)
  ultimately have b: "getLastestJobRunFromAwsS3 ?t ''job-1'' ''bucket'' None = Inr ''r2''"
    using run_resolution_returns_latest_run_with_data [of ?t "''job-1''" "[\<lparr>JobRecentRun.JobRunId = ''r1''\<rparr>]" "\<lparr>JobRecentRun.JobRunId = ''r2''\<rparr>" "[\<lparr>JobRecentRun.JobRunId = ''r3''\<rparr>]" "''bucket''" None]
    by simp
  from a b show ?thesis by simp
qed

text \<open>
  Claim C2, as amended. When every run of the history is empty (each listing succeeds and
  lists no key), run resolution fails with the internal error
  \<^verbatim>\<open>unable to find latest job run for job: <jobId>\<close>, built by
  \<^verbatim>\<open>nucleuserrors.NewInternalError\<close>.
\<close>

theorem run_resolution_no_data_internal_error:
  assumes "GetJobRecentRuns (jobService s) jobId = Inr jobRuns"
    and "list_all (runIsEmpty s bucket region) jobRuns"
  shows "getLastestJobRunFromAwsS3 s jobId bucket region =
         Inl (InternalError (''unable to find latest job run for job: '' @ jobId))"
proof -
  have "list_all (runIsEmpty s bucket region) (rev jobRuns)"
    using assms(2) by (simp add: list_all_iff)
  then have "scanJobRuns s jobId bucket region (rev jobRuns @ []) = scanJobRuns s jobId bucket region []"
    by (rule scanJobRuns_skips_empty)
  with assms(1) show ?thesis by (simp add: getLastestJobRunFromAwsS3_def)
qed

theorem run_resolution_no_data_internal_error_witness:
  "getLastestJobRunFromAwsS3 (runsService [''r1'', ''r2''] []) ''job-1'' ''bucket'' None =
     Inl (InternalError ''unable to find latest job run for job: job-1'')"
proof -
  let ?s = "runsService [''r1'', ''r2''] []"
  have "GetJobRecentRuns (jobService ?s) ''job-1'' = Inr [\<lparr>JobRecentRun.JobRunId = ''r1''\<rparr>, \<lparr>JobRecentRun.JobRunId = ''r2''\<rparr>]"
    by (simp add: runsService_def)
  moreover have "list_all (runIsEmpty ?s ''bucket'' None) [\<lparr>JobRecentRun.JobRunId = ''r1''\<rparr>, \<lparr>JobRecentRun.JobRunId = ''r2''\<rparr>]"
    by (simp add: runIsEmpty_def listRunActivities_def runsService_def listingWithKeyCount_def)
  ultimately show ?thesis
    using run_resolution_no_data_internal_error [of ?s "''job-1''" _ "''bucket''" None] by simp
qed

text \<open>
  Claim C2 as stated fails: with two runs, both empty, the error returned is an internal
  error and not a \<open>NotFound\<close> error.
\<close>

theorem run_resolution_no_data_is_not_NotFound:
  "getLastestJobRunFromAwsS3 (runsService [''r1'', ''r2''] []) ''job-1'' ''bucket'' None =
     Inl (InternalError ''unable to find latest job run for job: job-1'')
   \<and> \<not> is_NotFound (InternalError ''unable to find latest job run for job: job-1'')"
  by (simp add: getLastestJobRunFromAwsS3_def runsService_def listingWithKeyCount_def deref_def)

subsection \<open>JSON lines\<close>


lemma buildRowMap_keeps:
  "buildRowMap im data rowMap = Inr row \<Longrightarrow> k \<notin> fst ` set data \<Longrightarrow> row k = rowMap k"
proof (induction data arbitrary: rowMap)
  case Nil
  then show ?case by simp
next
  case (Cons kv data)
  obtain k' v' where kv: "kv = (k', v')" by (cases kv)
  from Cons.prems kv obtain b where b: "rowValue im v' = Inr b"
    and rest: "buildRowMap im data (rowMap(k' \<mapsto> b)) = Inr row"
    by (auto split: sum.splits)
  from Cons.prems kv have "k \<noteq> k'" and "k \<notin> fst ` set data" by auto
  with Cons.IH [OF rest] show ?case by simp
qed

lemma buildRowMap_entry:
  "buildRowMap im data rowMap = Inr row \<Longrightarrow> distinct (map fst data) \<Longrightarrow> (k, v) \<in> set data \<Longrightarrow>
   \<exists>b. rowValue im v = Inr b \<and> row k = Some b"
proof (induction data arbitrary: rowMap)
  case Nil
  then show ?case by simp
next
  case (Cons kv data)
  obtain k' v' where kv: "kv = (k', v')" by (cases kv)
  from Cons.prems kv obtain b where b: "rowValue im v' = Inr b"
    and rest: "buildRowMap im data (rowMap(k' \<mapsto> b)) = Inr row"
    by (auto split: sum.splits)
  from Cons.prems kv have d: "distinct (map fst data)" and fresh: "k' \<notin> fst ` set data" by auto
  show ?case
  proof (cases "(k, v) = (k', v')")
    case True
    with b buildRowMap_keeps [OF rest fresh] show ?thesis by simp
  next
    case False
    with Cons.prems kv have "(k, v) \<in> set data" by auto
    from Cons.IH [OF rest d this] show ?thesis .
  qed
qed

lemma buildRowMap_total:
  "\<forall>(k, v) \<in> set data. \<exists>b. rowValue im v = Inr b \<Longrightarrow> \<exists>row. buildRowMap im data rowMap = Inr row"
proof (induction data arbitrary: rowMap)
  case Nil
  then show ?case by simp
next
  case (Cons kv data)
  obtain k' v' where kv: "kv = (k', v')" by (cases kv)
  from Cons.prems kv obtain b where b: "rowValue im v' = Inr b" by auto
  from Cons.prems have "\<forall>(k, v) \<in> set data. \<exists>b. rowValue im v = Inr b" by simp
  from Cons.IH [OF this] kv b show ?case by simp
qed

lemma rowValue_total: "marshals im v \<Longrightarrow> \<exists>b. rowValue im v = Inr b"
  by (auto simp: rowValue_def marshals_def split: json.splits sum.splits)

text \<open>
  Claim C4. For a decoded JSON line (distinct keys, every value that is not a string
  marshals, and \<^verbatim>\<open>json.Marshal\<close> encodes nil as \<^verbatim>\<open>null\<close>) the row is built, it has exactly the
  line's keys, and for each key: a string value gives its own bytes, unquoted; JSON null
  gives a nil payload; any other value gives its JSON encoding (which is not the text
  \<^verbatim>\<open>null\<close>). The line \<^verbatim>\<open>{"a": "x", "b": 5, "c": null}\<close> gives the row with \<open>a\<close> the bytes of
  \<^verbatim>\<open>x\<close>, \<open>b\<close> the bytes of \<^verbatim>\<open>5\<close> and \<open>c\<close> nil.
\<close>

theorem json_line_values_to_bytes:
  assumes "json_Marshal im JNull = Inr ''null''"
    and "distinct (map fst data)"
    and "list_all (\<lambda>(k, v). marshals im v) data"
  shows "\<exists>row. buildRowMap im data Map.empty = Inr row
           \<and> dom row = fst ` set data
           \<and> (\<forall>(k, v) \<in> set data.
                 (\<forall>str. v = JString str \<longrightarrow> row k = Some (Some str))
               \<and> (v = JNull \<longrightarrow> row k = Some None)
               \<and> (\<forall>b. v \<noteq> JNull \<longrightarrow> (\<forall>str. v \<noteq> JString str) \<longrightarrow> json_Marshal im v = Inr b
                       \<longrightarrow> b \<noteq> ''null'' \<longrightarrow> row k = Some (Some b)))"
proof -
  from assms(3) have "\<forall>(k, v) \<in> set data. \<exists>b. rowValue im v = Inr b"
    by (auto simp: list_all_iff dest: rowValue_total)
  from buildRowMap_total [OF this] obtain row where row: "buildRowMap im data Map.empty = Inr row"
    by blast
  have dom: "dom row = fst ` set data"
  proof
    show "dom row \<subseteq> fst ` set data"
    proof
      fix k assume "k \<in> dom row"
      then show "k \<in> fst ` set data"
        using buildRowMap_keeps [OF row, of k] by (cases "k \<in> fst ` set data") auto
    qed
    show "fst ` set data \<subseteq> dom row"
      using buildRowMap_entry [OF row assms(2)] by fastforce
  qed
  have "\<forall>(k, v) \<in> set data.
                 (\<forall>str. v = JString str \<longrightarrow> row k = Some (Some str))
               \<and> (v = JNull \<longrightarrow> row k = Some None)
               \<and> (\<forall>b. v \<noteq> JNull \<longrightarrow> (\<forall>str. v \<noteq> JString str) \<longrightarrow> json_Marshal im v = Inr b
                       \<longrightarrow> b \<noteq> ''null'' \<longrightarrow> row k = Some (Some b))"
  proof (clarify, intro conjI allI impI)
    fix k v str assume "(k, v) \<in> set data" "v = JString str"
    with buildRowMap_entry [OF row assms(2), of k v] show "row k = Some (Some str)"
      by (auto simp: rowValue_def)
  next
    fix k v assume "(k, v) \<in> set data" "v = JNull"
    with buildRowMap_entry [OF row assms(2), of k v] assms(1) show "row k = Some None"
      by (auto simp: rowValue_def)
  next
    fix k v b assume "(k, v) \<in> set data" "v \<noteq> JNull" "\<forall>str. v \<noteq> JString str"
      "json_Marshal im v = Inr b" "b \<noteq> ''null''"
    with buildRowMap_entry [OF row assms(2), of k v] show "row k = Some (Some b)"
      by (cases v) (auto simp: rowValue_def)
  qed
  with row dom show ?thesis by blast
qed

theorem json_line_values_to_bytes_witness:
  "case buildRowMap sampleImports [(''a'', JString ''x''), (''b'', JNumber 5), (''c'', JNull)] Map.empty of
     Inl err \<Rightarrow> False
   | Inr row \<Rightarrow> row ''a'' = Some (Some ''x'') \<and> row ''b'' = Some (Some ''5'') \<and> row ''c'' = Some None
                \<and> dom row = {''a'', ''b'', ''c''}"
proof -
  let ?data = "[(''a'', JString ''x''), (''b'', JNumber 5), (''c'', JNull)]"
  have 1: "json_Marshal sampleImports JNull = Inr ''null''"
    by (simp add: sampleImports_def sampleMarshal_def)
  have 2: "distinct (map fst ?data)" by simp
  have 3: "list_all (\<lambda>(k, v). marshals sampleImports v) ?data"
    by (simp add: marshals_def sampleImports_def sampleMarshal_def)
  have 4: "json_Marshal sampleImports (JNumber 5) = Inr ''5''"
    by (simp add: sampleImports_def sampleMarshal_def)
  from json_line_values_to_bytes [OF 1 2 3] obtain row where
    row: "buildRowMap sampleImports ?data Map.empty = Inr row"
    and d: "dom row = fst ` set ?data"
    and v: "\<forall>(k, v) \<in> set ?data.
                 (\<forall>str. v = JString str \<longrightarrow> row k = Some (Some str))
               \<and> (v = JNull \<longrightarrow> row k = Some None)
               \<and> (\<forall>b. v \<noteq> JNull \<longrightarrow> (\<forall>str. v \<noteq> JString str) \<longrightarrow> json_Marshal sampleImports v = Inr b
                       \<longrightarrow> b \<noteq> ''null'' \<longrightarrow> row k = Some (Some b))"
    by blast
  from v have "row ''a'' = Some (Some ''x'')" by simp
  moreover from v 4 have "row ''b'' = Some (Some ''5'')" by simp
  moreover from v have "row ''c'' = Some None" by simp
  moreover from d have "dom row = {''a'', ''b'', ''c''}" by auto
  ultimately show ?thesis unfolding row sum.case by (intro conjI)
qed

subsection \<open>Dates and UUIDs as text\<close>

lemma of_char_utod: "u < 10 \<Longrightarrow> (of_char (utod u) :: nat) = 48 + u"
  by (simp add: utod_def)

lemma isDigit_utod: "u < 10 \<Longrightarrow> isDigit (utod u)"
  by (simp add: isDigit_def of_char_utod)

lemma decimal_1: "u < 10 \<Longrightarrow> decimal u = [utod u]"
  by (subst decimal.simps) simp

lemma decimal_2: "10 \<le> u \<Longrightarrow> u < 100 \<Longrightarrow> decimal u = [utod (u div 10), utod (u mod 10)]"
  by (subst decimal.simps) (simp add: decimal_1)

lemma decimal_3: "100 \<le> u \<Longrightarrow> u < 1000 \<Longrightarrow>
   decimal u = [utod (u div 100), utod (u div 10 mod 10), utod (u mod 10)]"
proof -
  assume u: "100 \<le> u" "u < 1000"
  then have "10 \<le> u div 10" "u div 10 < 100" by simp_all
  from decimal_2 [OF this] have "decimal (u div 10) = [utod (u div 100), utod (u div 10 mod 10)]"
    by (simp add: div_mult2_eq [symmetric])
  with u show ?thesis by (subst decimal.simps) simp
qed

lemma decimal_4: "1000 \<le> u \<Longrightarrow> u < 10000 \<Longrightarrow>
   decimal u = [utod (u div 1000), utod (u div 100 mod 10), utod (u div 10 mod 10), utod (u mod 10)]"
proof -
  assume u: "1000 \<le> u" "u < 10000"
  then have "100 \<le> u div 10" "u div 10 < 1000" by simp_all
  from decimal_3 [OF this]
  have "decimal (u div 10) = [utod (u div 1000), utod (u div 100 mod 10), utod (u div 10 mod 10)]"
    by (simp add: div_mult2_eq [symmetric])
  with u show ?thesis by (subst decimal.simps) simp
qed

lemma utod_0: "utod 0 = CHR ''0''"
proof -
  have "(of_char (utod 0) :: nat) = of_char CHR ''0''" by (simp add: utod_def)
  then show ?thesis by (simp only: of_char_eq_iff)
qed

lemma appendInt_2: "u < 100 \<Longrightarrow> appendInt (int u) 2 = [utod (u div 10), utod (u mod 10)]"
  by (cases "u < 10") (simp_all add: appendInt_def decimal_1 decimal_2 utod_0)

lemma appendInt_4: "u < 10000 \<Longrightarrow>
   appendInt (int u) 4 = [utod (u div 1000), utod (u div 100 mod 10), utod (u div 10 mod 10), utod (u mod 10)]"
proof -
  assume u: "u < 10000"
  consider "u < 10" | "10 \<le> u" "u < 100" | "100 \<le> u" "u < 1000" | "1000 \<le> u" by linarith
  then show ?thesis
  proof cases
    case 1 then show ?thesis by (simp add: appendInt_def decimal_1 utod_0 numeral_3_eq_3)
  next
    case 2 then show ?thesis by (simp add: appendInt_def decimal_2 utod_0 numeral_2_eq_2)
  next
    case 3 then show ?thesis by (simp add: appendInt_def decimal_3 utod_0)
  next
    case 4 with u show ?thesis by (simp add: appendInt_def decimal_4)
  qed
qed

lemma atoi_2: "a < 10 \<Longrightarrow> b < 10 \<Longrightarrow> atoi [utod a, utod b] 0 = Some (a * 10 + b)"
  by (simp add: isDigit_utod of_char_utod)

lemma atoi_4: "a < 10 \<Longrightarrow> b < 10 \<Longrightarrow> c < 10 \<Longrightarrow> d < 10 \<Longrightarrow>
   atoi [utod a, utod b, utod c, utod d] 0 = Some (a * 1000 + b * 100 + c * 10 + d)"
  by (simp add: isDigit_utod of_char_utod)

lemma parseUint_2: "u < 100 \<Longrightarrow> lo \<le> u \<Longrightarrow> u \<le> hi \<Longrightarrow>
   parseUint [utod (u div 10), utod (u mod 10)] lo hi = Some u"
proof -
  assume u: "u < 100" "lo \<le> u" "u \<le> hi"
  then have "u div 10 < 10" "u mod 10 < 10" by simp_all
  from atoi_2 [OF this] u show ?thesis by (simp add: parseUint_def)
qed

lemma digits_sum:
  "(x::nat) = a * 10 + b \<Longrightarrow> y = x * 10 + c \<Longrightarrow> u = y * 10 + d \<Longrightarrow>
   a * 1000 + b * 100 + c * 10 + d = u"
  by simp

lemma parseUint_4: "u < 10000 \<Longrightarrow> u \<le> hi \<Longrightarrow>
   parseUint [utod (u div 1000), utod (u div 100 mod 10), utod (u div 10 mod 10), utod (u mod 10)] 0 hi = Some u"
proof -
  assume u: "u < 10000" "u \<le> hi"
  have 1: "u = u div 10 * 10 + u mod 10" by simp
  have 2: "u div 10 = u div 100 * 10 + u div 10 mod 10"
    using div_mult_mod_eq [of "u div 10" 10] by (simp add: div_mult2_eq [symmetric])
  have 3: "u div 100 = u div 1000 * 10 + u div 100 mod 10"
    using div_mult_mod_eq [of "u div 100" 10] by (simp add: div_mult2_eq [symmetric])
  have e: "u div 1000 * 1000 + u div 100 mod 10 * 100 + u div 10 mod 10 * 10 + u mod 10 = u"
    by (rule digits_sum [OF 3 2 1])
  from u have "u div 1000 < 10" "u div 100 mod 10 < 10" "u div 10 mod 10 < 10" "u mod 10 < 10"
    by simp_all
  from atoi_4 [OF this] e u show ?thesis by (simp add: parseUint_def)
qed

lemma daysIn_le: "1 \<le> m \<Longrightarrow> m \<le> 12 \<Longrightarrow> daysIn m y \<le> 31"
proof -
  assume "1 \<le> m" "m \<le> 12"
  then have "m = 1 \<or> m = 2 \<or> m = 3 \<or> m = 4 \<or> m = 5 \<or> m = 6 \<or> m = 7 \<or> m = 8 \<or> m = 9
     \<or> m = 10 \<or> m = 11 \<or> m = 12" by presburger
  then show ?thesis by (auto simp: daysIn_def)
qed

lemma parse_format_date:
  assumes "isDateValue t" and "0 \<le> year t" and "year t \<le> 9999"
  shows "parseRFC3339 (Format_RFC3339 t) = Some t"
proof -
  define y where "y = nat (year t)"
  have y: "year t = int y" "y < 10000" "y \<le> 9999" using assms by (simp_all add: y_def)
  from assms(1) have m: "1 \<le> month t" "month t \<le> 12" "month t < 100"
    and d: "1 \<le> day t" "day t \<le> daysIn (month t) y"
    and z: "hour t = 0" "minute t = 0" "second t = 0" "nanosecond t = 0" "zoneOffset t = 0"
    by (simp_all add: isDateValue_def y_def)
  from d m daysIn_le [of "month t" y] have d100: "day t < 100" by simp
  let ?F = "[utod (y div 1000), utod (y div 100 mod 10), utod (y div 10 mod 10), utod (y mod 10), CHR ''-'',
       utod (month t div 10), utod (month t mod 10), CHR ''-'',
       utod (day t div 10), utod (day t mod 10), CHR ''T'',
       CHR ''0'', CHR ''0'', CHR '':'', CHR ''0'', CHR ''0'', CHR '':'',
       CHR ''0'', CHR ''0'', CHR ''Z'']"
  have f: "Format_RFC3339 t = ?F"
    unfolding Format_RFC3339_def z y(1)
    using appendInt_4 [OF y(2)] appendInt_2 [OF m(3)] appendInt_2 [OF d100] appendInt_2 [of 0]
    by (simp add: utod_0)
  have len: "\<not> length ?F < 19" by simp
  have a1: "parseUint (take 4 ?F) 0 9999 = Some y"
    using parseUint_4 [OF y(2,3)] by simp
  have a2: "parseUint (take 2 (drop 5 ?F)) 1 12 = Some (month t)"
    using parseUint_2 [OF m(3) m(1,2)] by simp
  have a3: "parseUint (take 2 (drop 8 ?F)) 1 (daysIn (month t) y) = Some (day t)"
    using parseUint_2 [OF d100 d] by simp
  have a4: "parseUint (take 2 (drop 11 ?F)) 0 23 = Some 0"
    by (simp add: parseUint_def isDigit_def)
  have a5: "parseUint (take 2 (drop 14 ?F)) 0 59 = Some 0"
    by (simp add: parseUint_def isDigit_def)
  have a6: "parseUint (take 2 (drop 17 ?F)) 0 59 = Some 0"
    by (simp add: parseUint_def isDigit_def)
  have seps: "(?F ! 4 = CHR ''-'' \<and> ?F ! 7 = CHR ''-'' \<and> ?F ! 10 = CHR ''T''
                 \<and> ?F ! 13 = CHR '':'' \<and> ?F ! 16 = CHR '':'')" by simp
  have frac: "parseFraction (drop 19 ?F) = (0, ''Z'')"
    by (simp add: parseFraction_def)
  have zone: "parseZone ''Z'' = Some 0"
    by (simp add: parseZone_def)
  have t: "\<lparr>year = int y, month = month t, day = day t, hour = 0, minute = 0,
                             second = 0, nanosecond = 0, zoneOffset = 0\<rparr> = t"
    using y z by simp
  show ?thesis
    unfolding f parseRFC3339_def
    by (simp only: len a1 a2 a3 a4 a5 a6 seps frac zone t if_False option.case prod.case not_True_eq_False simp_thms)
qed

lemma of_char_div16: "(of_char c :: nat) div 16 < 16"
  by (rule less_mult_imp_div_less) simp

lemma hexdigit_cases: "k < 16 \<Longrightarrow> k = 0 \<or> k = 1 \<or> k = 2 \<or> k = 3 \<or> k = 4 \<or> k = 5 \<or> k = 6 \<or> k = 7
    \<or> k = 8 \<or> k = 9 \<or> k = 10 \<or> k = 11 \<or> k = 12 \<or> k = 13 \<or> k = 14 \<or> k = (15::nat)"
  by arith

lemma fromHexChar_hexdigit: "k < 16 \<Longrightarrow> fromHexChar (hexdigit k) = Some k"
  using hexdigit_cases [of k] by (auto simp: fromHexChar_def hexdigit_def)

lemma hexdigit_lower: "k < 16 \<Longrightarrow> hexdigit k \<in> set ''0123456789abcdef''"
  using hexdigit_cases [of k] by (auto simp: hexdigit_def)

lemma decodeHex_encodeHex: "decodeHex (encodeHex bs) = Some bs"
proof (induction bs)
  case Nil
  then show ?case by simp
next
  case (Cons c bs)
  have "char_of ((of_char c :: nat) div 16 * 16 + of_char c mod 16) = c" by simp
  with Cons show ?case
    by (simp add: fromHexChar_hexdigit of_char_div16)
qed

lemma encodeHex_lower: "list_all (\<lambda>c. c \<in> set ''0123456789abcdef'') (encodeHex bs)"
proof (induction bs)
  case Nil
  then show ?case by simp
next
  case (Cons c bs)
  from hexdigit_lower [OF of_char_div16 [of c]] hexdigit_lower [of "of_char c mod 16"] Cons
  show ?case by simp
qed

lemma length_encodeHex: "length (encodeHex bs) = 2 * length bs"
  by (induction bs) simp_all

lemma encodeHex_append: "encodeHex (a @ b) = encodeHex a @ encodeHex b"
  by (induction a) simp_all

lemma uuid_String_parts:
  assumes "length u = 16"
  shows "length (uuid_String u) = 36"
    and "uuid_String u ! 8 = CHR ''-''" and "uuid_String u ! 13 = CHR ''-''"
    and "uuid_String u ! 18 = CHR ''-''" and "uuid_String u ! 23 = CHR ''-''"
    and "take 8 (uuid_String u) @ take 4 (drop 9 (uuid_String u)) @ take 4 (drop 14 (uuid_String u))
         @ take 4 (drop 19 (uuid_String u)) @ drop 24 (uuid_String u) = encodeHex u"
proof -
  let ?A = "encodeHex (take 4 u)" and ?B = "encodeHex (take 2 (drop 4 u))"
  and ?C = "encodeHex (take 2 (drop 6 u))" and ?D = "encodeHex (take 2 (drop 8 u))"
  and ?E = "encodeHex (drop 10 u)"
  have l: "length ?A = 8" "length ?B = 4" "length ?C = 4" "length ?D = 4" "length ?E = 12"
    using assms by (simp_all add: length_encodeHex)
  have s: "uuid_String u = ?A @ ''-'' @ ?B @ ''-'' @ ?C @ ''-'' @ ?D @ ''-'' @ ?E"
    by (simp add: uuid_String_def)
  show "length (uuid_String u) = 36" unfolding s using l by simp
  show "uuid_String u ! 8 = CHR ''-''" unfolding s using l by (simp add: nth_append)
  show "uuid_String u ! 13 = CHR ''-''" unfolding s using l by (simp add: nth_append)
  show "uuid_String u ! 18 = CHR ''-''" unfolding s using l by (simp add: nth_append)
  show "uuid_String u ! 23 = CHR ''-''" unfolding s using l by (simp add: nth_append)
  have u: "take 4 u @ take 2 (drop 4 u) @ take 2 (drop 6 u) @ take 2 (drop 8 u) @ drop 10 u = u"
  proof -
    have "take 2 (drop 8 u) @ drop 10 u = drop 8 u"
      using append_take_drop_id [of 2 "drop 8 u"] by simp
    moreover have "take 2 (drop 6 u) @ drop 8 u = drop 6 u"
      using append_take_drop_id [of 2 "drop 6 u"] by simp
    moreover have "take 2 (drop 4 u) @ drop 6 u = drop 4 u"
      using append_take_drop_id [of 2 "drop 4 u"] by simp
    ultimately show ?thesis by simp
  qed
  have "take 8 (uuid_String u) @ take 4 (drop 9 (uuid_String u)) @ take 4 (drop 14 (uuid_String u))
         @ take 4 (drop 19 (uuid_String u)) @ drop 24 (uuid_String u) = ?A @ ?B @ ?C @ ?D @ ?E"
    unfolding s using l by simp
  also have "\<dots> = encodeHex (take 4 u @ take 2 (drop 4 u) @ take 2 (drop 6 u) @ take 2 (drop 8 u) @ drop 10 u)"
    by (simp only: encodeHex_append)
  finally show "take 8 (uuid_String u) @ take 4 (drop 9 (uuid_String u)) @ take 4 (drop 14 (uuid_String u))
         @ take 4 (drop 19 (uuid_String u)) @ drop 24 (uuid_String u) = encodeHex u"
    by (simp only: u)
qed

lemma uuid_String_canonical: "length u = 16 \<Longrightarrow> isCanonicalUUID (uuid_String u)"
  unfolding isCanonicalUUID_def
  by (simp only: uuid_String_parts encodeHex_lower simp_thms)

lemma uuid_decode_String: "length u = 16 \<Longrightarrow> uuid_decodeCanonical (uuid_String u) = Some u"
  unfolding uuid_decodeCanonical_def
  by (simp only: uuid_String_parts decodeHex_encodeHex simp_thms if_False)

subsection \<open>Rows of a Postgres cursor, column by column\<close>

lemma pgBuildRow_keeps:
  "k \<notin> set names \<Longrightarrow> pgBuildRow names cols targets vs row k = row k"
  by (induction names cols targets vs row rule: pgBuildRow.induct) auto

lemma pgBuildRow_nth:
  "length cols = length names \<Longrightarrow> length targets = length names \<Longrightarrow> length vs = length names \<Longrightarrow>
   distinct names \<Longrightarrow> i < length names \<Longrightarrow>
   pgBuildRow names cols targets vs row (names ! i) = Some (pgRowValue (cols ! i) (targets ! i) (vs ! i))"
proof (induction names cols targets vs row arbitrary: i rule: pgBuildRow.induct)
  case (1 name names col cols target targets v vs row)
  show ?case
  proof (cases i)
    case 0
    with "1.prems" show ?thesis by (simp add: pgBuildRow_keeps)
  next
    case (Suc i')
    with "1.prems" have "length cols = length names" "length targets = length names"
      "length vs = length names" "distinct names" "i' < length names" by simp_all
    from "1.IH" [OF this] Suc show ?thesis by (simp add: fun_upd_def)
  qed
qed simp_all

lemma pgScanTargets_wrapValues:
  "pgScanTargets im (wrapValues cols k) cells vs = Inr (vs', scanned) \<Longrightarrow>
   length cells = length cols \<Longrightarrow> k + length cols \<le> length vs \<Longrightarrow>
   length scanned = length cols \<and> length vs' = length vs \<and> (\<forall>j<k. vs' ! j = vs ! j) \<and>
   (\<forall>i<length cols. columnScanned im (cols ! i) (cells ! i) (k + i) (scanned ! i) (vs' ! (k + i)))"
proof (induction cols arbitrary: k cells vs vs' scanned)
  case Nil
  then show ?case by simp
next
  case (Cons col cols)
  from Cons.prems(2) obtain cell cells' where cells: "cells = cell # cells'" and len: "length cells' = length cols"
    by (cases cells) auto
  from Cons.prems(3) have bound: "Suc k + length cols \<le> length vs" and kv: "k < length vs" by simp_all
  show ?case
  proof (cases "DataTypeOID col = 1082")
    case True
    with Cons.prems(1) cells obtain input ds vs1 scanned1 where
      inp: "(case cell of None \<Rightarrow> Inr ScanNil | Some src \<Rightarrow> decodeDate im src) = Inr input"
      and sc: "DateScanner_Scan \<lparr>val = Some zeroTime\<rparr> input = Inr ds"
      and rest: "pgScanTargets im (wrapValues cols (Suc k)) cells' vs = Inr (vs1, scanned1)"
      and res: "vs' = vs1" "scanned = DateTarget ds # scanned1"
      by (auto split: sum.splits prod.splits)
    from Cons.IH [OF rest len bound] have
      ih1: "length scanned1 = length cols" and ih2: "length vs1 = length vs"
      and ih3: "\<forall>j<Suc k. vs1 ! j = vs ! j"
      and ih4: "\<forall>i<length cols. columnScanned im (cols ! i) (cells' ! i) (Suc k + i) (scanned1 ! i) (vs1 ! (Suc k + i))"
      by simp_all
    have "\<forall>i<length (col # cols). columnScanned im ((col # cols) ! i) (cells ! i) (k + i) (scanned ! i) (vs' ! (k + i))"
    proof (intro allI impI)
      fix i assume i: "i < length (col # cols)"
      show "columnScanned im ((col # cols) ! i) (cells ! i) (k + i) (scanned ! i) (vs' ! (k + i))"
      proof (cases i)
        case 0
        with True inp sc res cells show ?thesis by (auto simp: columnScanned_def)
      next
        case (Suc i')
        with i have "i' < length cols" by simp
        with ih4 Suc res cells show ?thesis by simp
      qed
    qed
    with ih1 ih2 ih3 res show ?thesis by simp
  next
    case False
    with Cons.prems(1) cells obtain vs1 scanned1 where
      rest: "pgScanTargets im (wrapValues cols (Suc k)) cells' (vs[k := cell]) = Inr (vs1, scanned1)"
      and res: "vs' = vs1" "scanned = BytesTarget k # scanned1"
      by (auto split: sum.splits prod.splits)
    from bound have bound': "Suc k + length cols \<le> length (vs[k := cell])" by simp
    from Cons.IH [OF rest len bound'] have
      ih1: "length scanned1 = length cols" and ih2: "length vs1 = length vs"
      and ih3: "\<forall>j<Suc k. vs1 ! j = (vs[k := cell]) ! j"
      and ih4: "\<forall>i<length cols. columnScanned im (cols ! i) (cells' ! i) (Suc k + i) (scanned1 ! i) (vs1 ! (Suc k + i))"
      by simp_all
    from ih3 kv have vk: "vs1 ! k = cell" by simp
    from ih3 have keep: "\<forall>j<k. vs1 ! j = vs ! j" by simp
    have "\<forall>i<length (col # cols). columnScanned im ((col # cols) ! i) (cells ! i) (k + i) (scanned ! i) (vs' ! (k + i))"
    proof (intro allI impI)
      fix i assume i: "i < length (col # cols)"
      show "columnScanned im ((col # cols) ! i) (cells ! i) (k + i) (scanned ! i) (vs' ! (k + i))"
      proof (cases i)
        case 0
        with False vk res cells show ?thesis by (simp add: columnScanned_def)
      next
        case (Suc i')
        with i have "i' < length cols" by simp
        with ih4 Suc res cells show ?thesis by simp
      qed
    qed
    with ih1 ih2 keep res show ?thesis by simp
  qed
qed

lemma length_wrapValues: "length (wrapValues cols k) = length cols"
  by (induction cols arbitrary: k) simp_all

lemma pgRow_column:
  assumes "pgRow im cols cells = Inr row" and "distinct (map Name cols)" and "i < length cols"
  shows "length cells = length cols \<and>
     (\<exists>target v. columnScanned im (cols ! i) (cells ! i) i target v
        \<and> row (Name (cols ! i)) = Some (pgRowValue (cols ! i) target v))"
proof -
  let ?vs = "replicate (length cols) (None :: bytes option)"
  from assms(1) have len: "length cells = length cols"
    by (auto simp: pgRow_def pgScan_def length_wrapValues Let_def split: if_splits)
  with assms(1) obtain vs' scanned where
    scan: "pgScanTargets im (wrapValues cols 0) cells ?vs = Inr (vs', scanned)"
    and row: "row = pgBuildRow (map Name cols) cols scanned vs' Map.empty"
    by (auto simp: pgRow_def pgScan_def length_wrapValues Let_def split: if_splits sum.splits)
  from pgScanTargets_wrapValues [OF scan len] have
    s1: "length scanned = length cols" and s2: "length vs' = length cols"
    and s3: "\<forall>i<length cols. columnScanned im (cols ! i) (cells ! i) (0 + i) (scanned ! i) (vs' ! (0 + i))"
    by simp_all
  from pgBuildRow_nth [of cols "map Name cols" scanned vs' i Map.empty] s1 s2 assms(2,3)
  have r: "row (Name (cols ! i)) = Some (pgRowValue (cols ! i) (scanned ! i) (vs' ! i))"
    by (simp add: row)
  from s3 assms(3) have "columnScanned im (cols ! i) (cells ! i) i (scanned ! i) (vs' ! i)" by simp
  with r len show ?thesis by blast
qed

subsection \<open>Payloads of date and UUID columns\<close>

lemma replicate_small:
  "replicate 2 x = [x, x]" "replicate 3 x = [x, x, x]"
  by (simp_all add: numeral_2_eq_2 numeral_3_eq_3)

lemma Format_examples:
  "Format_RFC3339 zeroTime = ''0001-01-01T00:00:00Z''"
  "Format_RFC3339 leapDay = ''2024-02-29T00:00:00Z''"
  "Format_RFC3339 farDay = ''10000-01-01T00:00:00Z''"
  by (simp_all add: Format_RFC3339_def zeroTime_def leapDay_def farDay_def dateValue_def appendInt_def
        decimal.simps utod_def char_of_eq_iff replicate_small)

lemma uuid_example: "uuid_String ''0123456789abcdef'' = ''30313233-3435-3637-3839-616263646566''"
  by (simp add: uuid_String_def hexdigit_def)

text \<open>
  Claim C5, as amended. In a row emitted from a Postgres cursor (with distinct column
  names): for a date column whose value the driver decodes to a date \<open>t\<close> at midnight UTC
  with a year from 0 to 9999, the payload is \<open>t\<close> in RFC 3339 and parsing it gives back
  \<open>t\<close>; for a UUID column whose cell has 16 bytes, the payload is the canonical text of
  the UUID, and decoding that text gives back the 16 bytes.
\<close>

theorem pg_date_and_uuid_payloads:
  assumes "pgRow im cols cells = Inr row" and "distinct (map Name cols)" and "i < length cols"
  shows "(\<forall>src t. DataTypeOID (cols ! i) = 1082 \<longrightarrow> cells ! i = Some src \<longrightarrow>
             decodeDate im src = Inr (ScanTime t) \<longrightarrow> isDateValue t \<longrightarrow> 0 \<le> year t \<longrightarrow> year t \<le> 9999 \<longrightarrow>
             row (Name (cols ! i)) = Some (Some (Format_RFC3339 t))
             \<and> parseRFC3339 (Format_RFC3339 t) = Some t)
       \<and> (\<forall>u. DataTypeOID (cols ! i) = 2950 \<longrightarrow> cells ! i = Some u \<longrightarrow> length u = 16 \<longrightarrow>
             row (Name (cols ! i)) = Some (Some (uuid_String u))
             \<and> isCanonicalUUID (uuid_String u) \<and> uuid_decodeCanonical (uuid_String u) = Some u)"
proof -
  from pgRow_column [OF assms] obtain target v where
    sc: "columnScanned im (cols ! i) (cells ! i) i target v"
    and r: "row (Name (cols ! i)) = Some (pgRowValue (cols ! i) target v)" by blast
  have date: "row (Name (cols ! i)) = Some (Some (Format_RFC3339 t)) \<and> parseRFC3339 (Format_RFC3339 t) = Some t"
    if "DataTypeOID (cols ! i) = 1082" "cells ! i = Some src" "decodeDate im src = Inr (ScanTime t)"
       "isDateValue t" "0 \<le> year t" "year t \<le> 9999" for src t
  proof -
    from sc that(1,2,3) have "target = DateTarget \<lparr>val = Some t\<rparr>"
      by (auto simp: columnScanned_def DateScanner_Scan_def deref_def)
    with r that(1) have "row (Name (cols ! i)) = Some (Some (Format_RFC3339 t))"
      by (simp add: pgRowValue_def)
    with parse_format_date [OF that(4,5,6)] show ?thesis by simp
  qed
  have uuid: "row (Name (cols ! i)) = Some (Some (uuid_String u))
             \<and> isCanonicalUUID (uuid_String u) \<and> uuid_decodeCanonical (uuid_String u) = Some u"
    if "DataTypeOID (cols ! i) = 2950" "cells ! i = Some u" "length u = 16" for u
  proof -
    from sc that(1,2) have "v = Some u" by (simp add: columnScanned_def)
    with r that(1,3) have "row (Name (cols ! i)) = Some (Some (uuid_String u))"
      by (simp add: pgRowValue_def uuid_FromBytes_def)
    with uuid_String_canonical [OF that(3)] uuid_decode_String [OF that(3)] show ?thesis by simp
  qed
  from date uuid show ?thesis by blast
qed

lemma pgRow_sample:
  "\<exists>row. pgRow sampleImports sampleColumns [Some ''0123456789abcdef'', Some ''2024-02-29'', Some ''Ada''] = Inr row"
  by (simp add: pgRow_def pgScan_def sampleColumns_def sampleImports_def sampleDecodeDate_def
        DateScanner_Scan_def deref_def numeral_3_eq_3)

text \<open>
  The theorem at a row with the UUID of the bytes \<^verbatim>\<open>0123456789abcdef\<close> and the date
  2024-02-29.
\<close>

theorem pg_date_and_uuid_payloads_witness:
  "case pgRow sampleImports sampleColumns [Some ''0123456789abcdef'', Some ''2024-02-29'', Some ''Ada''] of
     Inl err \<Rightarrow> False
   | Inr row \<Rightarrow>
       row ''born'' = Some (Some ''2024-02-29T00:00:00Z'')
       \<and> parseRFC3339 ''2024-02-29T00:00:00Z'' = Some (leapDay)
       \<and> row ''id'' = Some (Some ''30313233-3435-3637-3839-616263646566'')
       \<and> isCanonicalUUID ''30313233-3435-3637-3839-616263646566''
       \<and> uuid_decodeCanonical ''30313233-3435-3637-3839-616263646566'' = Some ''0123456789abcdef''"
proof -
  let ?cells = "[Some ''0123456789abcdef'', Some ''2024-02-29'', Some ''Ada'']"
  from pgRow_sample obtain row where row: "pgRow sampleImports sampleColumns ?cells = Inr row" by blast
  have d: "distinct (map Name sampleColumns)" by (simp add: sampleColumns_def)
  have dv: "isDateValue (leapDay)"
    by (simp add: isDateValue_def leapDay_def dateValue_def daysIn_def isLeap_def)
  have dec: "decodeDate sampleImports ''2024-02-29'' = Inr (ScanTime (leapDay))"
    by (simp add: sampleImports_def sampleDecodeDate_def)
  have y: "0 \<le> year (leapDay)" "year (leapDay) \<le> 9999"
    by (simp_all add: leapDay_def dateValue_def)
  from pg_date_and_uuid_payloads [OF row d, of 1] dec dv y
  have 1: "row ''born'' = Some (Some (Format_RFC3339 (leapDay)))
           \<and> parseRFC3339 (Format_RFC3339 (leapDay)) = Some (leapDay)"
    by (simp add: sampleColumns_def)
  from pg_date_and_uuid_payloads [OF row d, of 0]
  have 2: "row ''id'' = Some (Some (uuid_String ''0123456789abcdef''))
           \<and> isCanonicalUUID (uuid_String ''0123456789abcdef'')
           \<and> uuid_decodeCanonical (uuid_String ''0123456789abcdef'') = Some ''0123456789abcdef''"
    by (simp add: sampleColumns_def)
  from 1 2 show ?thesis unfolding row sum.case Format_examples uuid_example by simp
qed

text \<open>
  Claim C5 as stated fails for a date after the year 9999, which a Postgres date column
  can hold: the row is emitted with a five-digit year, and that payload does not parse as
  RFC 3339.
\<close>

theorem pg_date_year_10000_not_parsed_back:
  "(case pgRow sampleImports [\<lparr>Name = ''born'', DataTypeOID = 1082\<rparr>] [Some ''10000-01-01''] of
      Inl err \<Rightarrow> False
    | Inr row \<Rightarrow> row ''born'' = Some (Some ''10000-01-01T00:00:00Z''))
   \<and> isDateValue (farDay)
   \<and> parseRFC3339 ''10000-01-01T00:00:00Z'' = None"
proof -
  have "pgRow sampleImports [\<lparr>Name = ''born'', DataTypeOID = 1082\<rparr>] [Some ''10000-01-01'']
        = Inr [''born'' \<mapsto> Some (Format_RFC3339 (farDay))]"
    by (simp add: pgRow_def pgScan_def sampleImports_def sampleDecodeDate_def
        DateScanner_Scan_def deref_def pgRowValue_def)
  moreover have "isDateValue (farDay)"
    by (simp add: isDateValue_def farDay_def dateValue_def daysIn_def)
  moreover have "parseRFC3339 ''10000-01-01T00:00:00Z'' = None"
    by (simp add: parseRFC3339_def parseUint_def isDigit_def)
  ultimately show ?thesis by (simp add: Format_examples)
qed

text \<open>
  Claim C6 at its failing input: a row with SQL NULL in a date column. \<^verbatim>\<open>Scan\<close> leaves the
  zero time in place, the pointer \<open>val\<close> is not nil, and the emitted payload is the zero time
  in RFC 3339 instead of nil.
\<close>

theorem pg_null_date_payload_is_zero_time:
  "case pgRow sampleImports [\<lparr>Name = ''born'', DataTypeOID = 1082\<rparr>] [None] of
      Inl err \<Rightarrow> False
    | Inr row \<Rightarrow> row ''born'' = Some (Some ''0001-01-01T00:00:00Z'') \<and> row ''born'' \<noteq> Some None"
proof -
  have "pgRow sampleImports [\<lparr>Name = ''born'', DataTypeOID = 1082\<rparr>] [None]
        = Inr [''born'' \<mapsto> Some (Format_RFC3339 zeroTime)]"
    by (simp add: pgRow_def pgScan_def DateScanner_Scan_def pgRowValue_def)
  then show ?thesis by (simp add: Format_examples)
qed

text \<open>The same for every emitted row with SQL NULL in a date column.\<close>

lemma pg_null_date_never_nil:
  assumes "pgRow im cols cells = Inr row" and "distinct (map Name cols)" and "i < length cols"
    and "DataTypeOID (cols ! i) = 1082" and "cells ! i = None"
  shows "row (Name (cols ! i)) = Some (Some ''0001-01-01T00:00:00Z'')"
proof -
  from pgRow_column [OF assms(1,2,3)] obtain target v where
    sc: "columnScanned im (cols ! i) (cells ! i) i target v"
    and r: "row (Name (cols ! i)) = Some (pgRowValue (cols ! i) target v)" by blast
  from sc assms(4,5) have "target = DateTarget \<lparr>val = Some zeroTime\<rparr>"
    by (auto simp: columnScanned_def DateScanner_Scan_def)
  with r assms(4) show ?thesis by (simp add: pgRowValue_def Format_examples)
qed

end
